theory Spec2Isabelle
  imports Complex_Main "HOL-Library.Sublist" "HOL-Library.AList"
begin

section \<open>Strings\<close>

text \<open>
  A JavaScript string is modelled by the list of its code units, restricted to the code
  units below 256 (the type \<^typ>\<open>char\<close>). In that range the white space of
  \<^verbatim>\<open>\s\<close> and of \<^verbatim>\<open>trim()\<close> is TAB, LF, VT, FF, CR, SPACE and NBSP, the line
  terminators (which \<^verbatim>\<open>.\<close> does not match) are LF and CR, and \<^verbatim>\<open>\w\<close> is
  \<^verbatim>\<open>[A-Za-z0-9_]\<close>.
\<close>

definition nl :: string where
  \<open>nl = [CHR 0x0A]\<close>

definition is_space :: \<open>char \<Rightarrow> bool\<close> where
  \<open>is_space c = (c \<in> set [CHR 0x09, CHR 0x0A, CHR 0x0B, CHR 0x0C, CHR 0x0D, CHR 0x20, CHR 0xA0])\<close>



text \<open>\<^verbatim>\<open>String.prototype.trim\<close>.\<close>

definition trim :: \<open>string \<Rightarrow> string\<close> where
  \<open>trim s = rev (dropWhile is_space (rev (dropWhile is_space s)))\<close>

text \<open>\<^verbatim>\<open>String.prototype.includes\<close>.\<close>

fun str_includes :: \<open>string \<Rightarrow> string \<Rightarrow> bool\<close> where
  \<open>str_includes hay needle =
     (prefix needle hay \<or> (case hay of [] \<Rightarrow> False | _ # rest \<Rightarrow> str_includes rest needle))\<close>

declare str_includes.simps [simp del]

text \<open>The decimal numeral of a natural number, as a template literal prints it.\<close>

definition digit :: \<open>nat \<Rightarrow> char\<close> where
  \<open>digit d = ''0123456789'' ! d\<close>

fun decimal :: \<open>nat \<Rightarrow> string\<close> where
  \<open>decimal n = (if n < 10 then [digit n] else decimal (n div 10) @ [digit (n mod 10)])\<close>

declare decimal.simps [simp del]

text \<open>
  \<^verbatim>\<open>Buffer.from(s).toString('base64')\<close>: the UTF-8 bytes of the string, then base64 with
  padding.
\<close>

definition utf8 :: \<open>string \<Rightarrow> nat list\<close> where
  \<open>utf8 s = concat (map (\<lambda>c. let n = of_char c in
                               if n < 128 then [n] else [192 + n div 64, 128 + n mod 64]) s)\<close>

definition b64_char :: \<open>nat \<Rightarrow> char\<close> where
  \<open>b64_char i = ''ABCDEFGHIJKLMNOPQRSTUVWXYZabcdefghijklmnopqrstuvwxyz0123456789+/'' ! i\<close>

fun base64_bytes :: \<open>nat list \<Rightarrow> string\<close> where
  \<open>base64_bytes [] = []\<close>
| \<open>base64_bytes [a] = [b64_char (a div 4), b64_char ((a mod 4) * 16), CHR ''='', CHR ''='']\<close>
| \<open>base64_bytes [a, b] =
     [b64_char (a div 4), b64_char ((a mod 4) * 16 + b div 16), b64_char ((b mod 16) * 4), CHR ''='']\<close>
| \<open>base64_bytes (a # b # c # rest) =
     [b64_char (a div 4), b64_char ((a mod 4) * 16 + b div 16),
      b64_char ((b mod 16) * 4 + c div 64), b64_char (c mod 64)] @ base64_bytes rest\<close>

definition base64 :: \<open>string \<Rightarrow> string\<close> where
  \<open>base64 s = base64_bytes (utf8 s)\<close>

section \<open>Regular expressions\<close>

text \<open>
  The backtracking matcher of ECMAScript, for the operators the sources use. \<open>rx_rests r s\<close>
  lists, in the order in which the matcher tries them, the rests of \<open>s\<close> that are left
  after a match of \<open>r\<close> at the start of \<open>s\<close>. A greedy star tries one more iteration
  before it stops, a lazy one stops first; an iteration that consumes nothing is rejected,
  as the standard prescribes.
\<close>

datatype rx =
    Chr \<open>char \<Rightarrow> bool\<close>
  | Seq rx rx
  | Alt rx rx
  | Opt rx
  | Star rx
  | LazyStar rx

function rx_rests :: \<open>rx \<Rightarrow> string \<Rightarrow> string list\<close> where
  \<open>rx_rests (Chr p) s = (case s of [] \<Rightarrow> [] | c # cs \<Rightarrow> if p c then [cs] else [])\<close>
| \<open>rx_rests (Seq a b) s = concat (map (rx_rests b) (rx_rests a s))\<close>
| \<open>rx_rests (Alt a b) s = rx_rests a s @ rx_rests b s\<close>
| \<open>rx_rests (Opt a) s = rx_rests a s @ [s]\<close>
| \<open>rx_rests (Star a) s =
     concat (map (\<lambda>t. if length t < length s then rx_rests (Star a) t else []) (rx_rests a s)) @ [s]\<close>
| \<open>rx_rests (LazyStar a) s =
     s # concat (map (\<lambda>t. if length t < length s then rx_rests (LazyStar a) t else []) (rx_rests a s))\<close>
  by pat_completeness auto
termination
  by (relation \<open>measure size <*lex*> measure length\<close>) auto



text \<open>
  \<^verbatim>\<open>String.prototype.match\<close> without the \<^verbatim>\<open>g\<close> flag: the leftmost position with a
  match, and there the first match in the matcher's order. The result is the text before
  the match, the match and the text after it.
\<close>

fun rx_search :: \<open>rx \<Rightarrow> string \<Rightarrow> string \<Rightarrow> (string \<times> string \<times> string) option\<close> where
  \<open>rx_search r pre [] =
     (case rx_rests r [] of [] \<Rightarrow> None | t # _ \<Rightarrow> Some (rev pre, [], []))\<close>
| \<open>rx_search r pre (c # cs) =
     (case rx_rests r (c # cs) of
        [] \<Rightarrow> rx_search r (c # pre) cs
      | t # _ \<Rightarrow> Some (rev pre, take (length (c # cs) - length t) (c # cs), t))\<close>

definition rx_match :: \<open>rx \<Rightarrow> string \<Rightarrow> string option\<close> where
  \<open>rx_match r s = map_option (\<lambda>(_, m, _). m) (rx_search r [] s)\<close>



section \<open>JSON values\<close>

datatype json =
    JNull
  | JBool bool
  | JNum rat
  | JStr string
  | JArr \<open>json list\<close>
  | JObj \<open>(string \<times> json) list\<close>

text \<open>The truthiness of a value in a condition.\<close>

fun truthy :: \<open>json \<Rightarrow> bool\<close> where
  \<open>truthy JNull = False\<close>
| \<open>truthy (JBool b) = b\<close>
| \<open>truthy (JNum n) = (n \<noteq> 0)\<close>
| \<open>truthy (JStr s) = (s \<noteq> [])\<close>
| \<open>truthy (JArr _) = True\<close>
| \<open>truthy (JObj _) = True\<close>

text \<open>Object spread \<^verbatim>\<open>{ ...a, ...b }\<close>: the properties of \<open>a\<close>, overridden and extended by those of \<open>b\<close>.\<close>

definition spread :: \<open>(string \<times> json) list \<Rightarrow> (string \<times> json) list \<Rightarrow> (string \<times> json) list\<close> where
  \<open>spread a b = foldl (\<lambda>acc (k, v). AList.update k v acc) a b\<close>

section \<open>The Session documents\<close>

text \<open>
  The schemas of \<^verbatim>\<open>backend/models/Session.js\<close>. An ObjectId is a natural number, a date
  the number of milliseconds since the epoch. The casts of Mongoose from the JSON of a
  request to the types of the schema are not modelled: the fields of a request already have
  the types of the schema. The \<^verbatim>\<open>_id\<close> that Mongoose gives to every subdocument is left
  out.
\<close>

type_synonym oid = nat
type_synonym date = nat
type_synonym object = \<open>(string \<times> json) list\<close>

record chat_message =
  role :: string
  content :: string
  timestamp :: date
  msg_metadata :: object

record component_code =
  jsx :: string
  css :: string
  tsx :: string
  version :: nat
  lastModified :: date

text \<open>The UI state of \<^verbatim>\<open>uiStateSchema\<close>; \<open>None\<close> is a \<^verbatim>\<open>selectedElement\<close> that is \<^verbatim>\<open>null\<close>.\<close>

record viewport =
  width :: rat
  height :: rat

record ui_state =
  selectedElement :: \<open>string option\<close>
  properties :: object
  viewport :: viewport
  theme :: string

text \<open>
  An object that is assigned to the path \<^verbatim>\<open>uiState\<close>, such as the body of
  \<^verbatim>\<open>PUT /:sessionId/ui-state\<close>: each path of the schema is given or left out (\<open>None\<close>),
  the selected element, if given, as a string or as \<^verbatim>\<open>null\<close>, and the viewport, if given,
  with each of its two numbers given or left out; and the object may have keys that the
  schema does not know.
\<close>

record viewport_fields =
  given_width :: \<open>rat option\<close>
  given_height :: \<open>rat option\<close>

record ui_state_fields =
  given_selectedElement :: \<open>string option option\<close>
  given_properties :: \<open>object option\<close>
  given_viewport :: \<open>viewport_fields option\<close>
  given_theme :: \<open>string option\<close>
  other_keys :: object

text \<open>
  The spread \<^verbatim>\<open>{ ...a, ...b }\<close> of two such objects: what \<open>b\<close> gives overrides what
  \<open>a\<close> gives, a viewport as a whole.
\<close>

definition spread_fields :: \<open>ui_state_fields \<Rightarrow> ui_state_fields \<Rightarrow> ui_state_fields\<close> where
  \<open>spread_fields a b =
     \<lparr>given_selectedElement =
        (case given_selectedElement b of None \<Rightarrow> given_selectedElement a | Some x \<Rightarrow> Some x),
      given_properties = (case given_properties b of None \<Rightarrow> given_properties a | Some x \<Rightarrow> Some x),
      given_viewport = (case given_viewport b of None \<Rightarrow> given_viewport a | Some x \<Rightarrow> Some x),
      given_theme = (case given_theme b of None \<Rightarrow> given_theme a | Some x \<Rightarrow> Some x),
      other_keys = spread (other_keys a) (other_keys b)\<rparr>\<close>

text \<open>
  The cast of such an object to the subdocument of \<^verbatim>\<open>uiStateSchema\<close>: the schema is strict,
  so the keys that it does not know are dropped, and every path that is left out, also inside
  the viewport, gets the default of the schema.
\<close>

definition cast_viewport :: \<open>viewport_fields \<Rightarrow> viewport\<close> where
  \<open>cast_viewport v =
     \<lparr>width = (case given_width v of None \<Rightarrow> 1200 | Some n \<Rightarrow> n),
      height = (case given_height v of None \<Rightarrow> 800 | Some n \<Rightarrow> n)\<rparr>\<close>

definition cast_ui_state :: \<open>ui_state_fields \<Rightarrow> ui_state\<close> where
  \<open>cast_ui_state f =
     \<lparr>selectedElement = (case given_selectedElement f of None \<Rightarrow> None | Some x \<Rightarrow> x),
      properties = (case given_properties f of None \<Rightarrow> [] | Some x \<Rightarrow> x),
      viewport =
        cast_viewport
          (case given_viewport f of None \<Rightarrow> \<lparr>given_width = None, given_height = None\<rparr> | Some v \<Rightarrow> v),
      theme = (case given_theme f of None \<Rightarrow> ''light'' | Some x \<Rightarrow> x)\<rparr>\<close>

text \<open>The empty object \<^verbatim>\<open>{}\<close>.\<close>

definition no_fields :: ui_state_fields where
  \<open>no_fields =
     \<lparr>given_selectedElement = None, given_properties = None, given_viewport = None,
      given_theme = None, other_keys = []\<rparr>\<close>

text \<open>
  A session document. The three fields that \<^verbatim>\<open>select('-chatHistory -componentCode -uiState')\<close>
  can leave out are optional: \<open>None\<close> is \<^verbatim>\<open>undefined\<close>.
\<close>

record session =
  doc_id :: oid
  userId :: oid
  title :: string
  description :: string
  chatHistory :: \<open>chat_message list option\<close>
  componentCode :: \<open>component_code option\<close>
  uiState :: \<open>ui_state option\<close>
  isActive :: bool
  lastAccessed :: date
  tags :: \<open>string list\<close>
  metadata :: object
  createdAt :: date
  updatedAt :: date

text \<open>The validators of the schemas: \<^verbatim>\<open>required\<close>, \<^verbatim>\<open>maxlength\<close> and \<^verbatim>\<open>enum\<close>.\<close>

definition valid_chat_message :: \<open>chat_message \<Rightarrow> bool\<close> where
  \<open>valid_chat_message m = (role m \<in> set [''user'', ''assistant''] \<and> content m \<noteq> [])\<close>

definition valid_title :: \<open>string \<Rightarrow> bool\<close> where
  \<open>valid_title t = (t \<noteq> [] \<and> length t \<le> 100)\<close>

definition valid_description :: \<open>string \<Rightarrow> bool\<close> where
  \<open>valid_description d = (length d \<le> 500)\<close>

definition valid_ui_state :: \<open>ui_state \<Rightarrow> bool\<close> where
  \<open>valid_ui_state u = (theme u \<in> set [''light'', ''dark''])\<close>

definition valid_session :: \<open>session \<Rightarrow> bool\<close> where
  \<open>valid_session s =
     (valid_title (title s) \<and> valid_description (description s) \<and>
      (case chatHistory s of None \<Rightarrow> True | Some ms \<Rightarrow> list_all valid_chat_message ms) \<and>
      (case uiState s of None \<Rightarrow> True | Some u \<Rightarrow> valid_ui_state u))\<close>

section \<open>The world of the backend\<close>

text \<open>
  What is thrown. \<open>Error m\<close> is \<^verbatim>\<open>new Error(m)\<close> and every error of the store, of Redis
  and of the network; the message of the other errors is the engine's.
\<close>

datatype exn = Error string | TypeError | SyntaxError | CastError | ValidationError | MongoServerError

text \<open>
  The calls that leave the process, as the trace of a request records them, with their
  arguments: the query of \<^verbatim>\<open>find\<close> and of \<^verbatim>\<open>countDocuments\<close>, the filter of
  \<^verbatim>\<open>findOne\<close> and of \<^verbatim>\<open>findOneAndUpdate\<close>, the document that \<^verbatim>\<open>save()\<close> writes, the
  key of a \<^verbatim>\<open>get\<close>, the key, the time to live and the value of a \<^verbatim>\<open>setEx\<close>, and the
  prompt that is sent to the API.
\<close>

record session_filter =
  f_id :: string
  f_userId :: oid
  f_isActive :: bool

record list_query =
  q_userId :: oid
  q_isActive :: bool
  q_search :: \<open>string option\<close>

datatype effect =
    DbFind list_query
  | DbCountDocuments list_query
  | DbFindOne session_filter
  | DbFindOneAndUpdate session_filter
  | DbSave session
  | RedisGet string
  | RedisSetEx string nat json
  | Fetch string

fun is_db :: \<open>effect \<Rightarrow> bool\<close> where
  \<open>is_db (DbFind _) = True\<close>
| \<open>is_db (DbCountDocuments _) = True\<close>
| \<open>is_db (DbFindOne _) = True\<close>
| \<open>is_db (DbFindOneAndUpdate _) = True\<close>
| \<open>is_db (DbSave _) = True\<close>
| \<open>is_db _ = False\<close>

fun is_redis_get :: \<open>effect \<Rightarrow> bool\<close> where
  \<open>is_redis_get (RedisGet _) = True\<close>
| \<open>is_redis_get _ = False\<close>

fun is_fetch :: \<open>effect \<Rightarrow> bool\<close> where
  \<open>is_fetch (Fetch _) = True\<close>
| \<open>is_fetch _ = False\<close>

text \<open>
  The answer of the generative language API to a prompt, as the handlers tell the cases
  apart: a response that is not \<^verbatim>\<open>ok\<close> (with the message of its error object, if any, and
  its status), a body that is not JSON, a body without
  \<^verbatim>\<open>candidates[0].content.parts[0]\<close>, and a body with the text of that part. A part
  whose \<^verbatim>\<open>text\<close> is not a string is not modelled.
\<close>

datatype api_reply =
    NotOk \<open>string option\<close> nat
  | NotJson
  | NoContent
  | Text string

text \<open>
  The state around the handlers: the Session collection (by \<^verbatim>\<open>_id\<close>), the Redis keys
  with the time at which each expires and its value (the JSON that was stringified into it),
  whether \<^verbatim>\<open>connectRedis\<close> has set the client, the clock, the next fresh ObjectId, the
  external API, the bearer tokens of the users, the failures to come (one entry for each
  call that leaves the process, in order: \<open>Some m\<close> makes the call throw an error with the
  message \<open>m\<close>; past the end of the list calls succeed), and the trace of the calls that
  were made.
\<close>

record world =
  db :: \<open>(oid \<times> session) list\<close>
  redis :: \<open>string \<Rightarrow> (date \<times> json) option\<close>
  redisClient :: bool
  clock :: date
  next_oid :: oid
  gemini :: \<open>string \<Rightarrow> api_reply\<close>
  tokens :: \<open>string \<Rightarrow> oid option\<close>
  faults :: \<open>string option list\<close>
  trace :: \<open>effect list\<close>

text \<open>
  The functions of the platform that the handlers call and that are taken as given:
  \<^verbatim>\<open>JSON.parse\<close> (\<open>None\<close> when it throws), the cast of a string to an ObjectId (\<open>None\<close>
  when it throws), a case-insensitive regular expression from its source (\<open>None\<close> when
  the source is not a regular expression), as the test of whether a string has a match, and
  the own enumerable properties of a \<^verbatim>\<open>uiState\<close> subdocument of Mongoose, which are what an
  object spread copies out of it.
\<close>

record platform =
  JSON_parse :: \<open>string \<Rightarrow> json option\<close>
  castObjectId :: \<open>string \<Rightarrow> oid option\<close>
  RegExp_i :: \<open>string \<Rightarrow> (string \<Rightarrow> bool) option\<close>
  own_properties :: \<open>ui_state \<Rightarrow> ui_state_fields\<close>

type_synonym 'a result = \<open>(exn + 'a) \<times> world\<close>

definition and_then :: \<open>'a result \<Rightarrow> ('a \<Rightarrow> world \<Rightarrow> 'b result) \<Rightarrow> 'b result\<close> where
  \<open>and_then m f = (case m of (Inl e, w) \<Rightarrow> (Inl e, w) | (Inr x, w) \<Rightarrow> f x w)\<close>

text \<open>
  A call that leaves the process: it is recorded in the trace, it uses up the next entry of
  the failures, and it throws if that entry says so.
\<close>

definition next_fault :: \<open>world \<Rightarrow> string option\<close> where
  \<open>next_fault w = (case faults w of [] \<Rightarrow> None | f # _ \<Rightarrow> f)\<close>

definition performed :: \<open>effect \<Rightarrow> world \<Rightarrow> world\<close> where
  \<open>performed e w = w\<lparr>faults := tl (faults w), trace := trace w @ [e]\<rparr>\<close>

definition call :: \<open>effect \<Rightarrow> world \<Rightarrow> unit result\<close> where
  \<open>call e w =
     (case next_fault w of
        Some m \<Rightarrow> (Inl (Error m), performed e w)
      | None \<Rightarrow> (Inr (), performed e w))\<close>

text \<open>The next \<open>n\<close> calls do not fail.\<close>

definition no_faults :: \<open>nat \<Rightarrow> world \<Rightarrow> bool\<close> where
  \<open>no_faults n w = list_all (\<lambda>f. f = None) (take n (faults w))\<close>

text \<open>The calls that a step from one world to a later one has added to the trace.\<close>

definition effects :: \<open>world \<Rightarrow> world \<Rightarrow> effect list\<close> where
  \<open>effects w w' = drop (length (trace w)) (trace w')\<close>

section \<open>The Session collection\<close>

text \<open>
  The queries of Mongoose that the routes use. A filter names the session by the string of
  the URL, which is cast to an ObjectId before the query is sent; a cast or a validation
  that fails throws before anything is sent. \<open>matching\<close> is the document that a filter
  selects, with its key in the collection.
\<close>

definition matching :: \<open>platform \<Rightarrow> session_filter \<Rightarrow> world \<Rightarrow> (oid \<times> session) option\<close> where
  \<open>matching pf f w =
     (case castObjectId pf (f_id f) of
        None \<Rightarrow> None
      | Some i \<Rightarrow>
          (case map_of (db w) i of
             None \<Rightarrow> None
           | Some s \<Rightarrow>
               if doc_id s = i \<and> userId s = f_userId f \<and> isActive s = f_isActive f then Some (i, s)
               else None))\<close>

text \<open>
  A document that a query returns is hydrated: a path that the stored document lacks gets
  the default of the schema, which is \<^verbatim>\<open>[]\<close> for the chat history and the cast of
  \<^verbatim>\<open>{}\<close> to the subdocument for the component code and the UI state.
\<close>

definition hydrate :: \<open>date \<Rightarrow> session \<Rightarrow> session\<close> where
  \<open>hydrate now s =
     s\<lparr>chatHistory := Some (case chatHistory s of None \<Rightarrow> [] | Some ms \<Rightarrow> ms),
       componentCode :=
         Some (case componentCode s of
                 None \<Rightarrow> \<lparr>jsx = [], css = [], tsx = [], version = 1, lastModified = now\<rparr>
               | Some c \<Rightarrow> c),
       uiState := Some (case uiState s of None \<Rightarrow> cast_ui_state no_fields | Some u \<Rightarrow> u)\<rparr>\<close>

definition Session_findOne :: \<open>platform \<Rightarrow> session_filter \<Rightarrow> world \<Rightarrow> session option result\<close> where
  \<open>Session_findOne pf f w =
     (case castObjectId pf (f_id f) of
        None \<Rightarrow> (Inl CastError, w)
      | Some _ \<Rightarrow>
          and_then (call (DbFindOne f) w) (\<lambda>_ w1.
            (Inr (map_option (hydrate (clock w1) \<circ> snd) (matching pf f w1)), w1)))\<close>

text \<open>
  The update object of \<^verbatim>\<open>findOneAndUpdate\<close>: a field that is \<^verbatim>\<open>undefined\<close> is left out
  of the update. The setters of the schema trim the strings.
\<close>

record session_update =
  u_title :: \<open>string option\<close>
  u_description :: \<open>string option\<close>
  u_tags :: \<open>string list option\<close>
  u_lastAccessed :: \<open>date option\<close>
  u_isActive :: \<open>bool option\<close>

definition apply_update :: \<open>session_update \<Rightarrow> session \<Rightarrow> session\<close> where
  \<open>apply_update u s =
     s\<lparr>title := (case u_title u of None \<Rightarrow> title s | Some t \<Rightarrow> trim t),
       description := (case u_description u of None \<Rightarrow> description s | Some d \<Rightarrow> trim d),
       tags := (case u_tags u of None \<Rightarrow> tags s | Some ts \<Rightarrow> map trim ts),
       lastAccessed := (case u_lastAccessed u of None \<Rightarrow> lastAccessed s | Some t \<Rightarrow> t),
       isActive := (case u_isActive u of None \<Rightarrow> isActive s | Some b \<Rightarrow> b)\<rparr>\<close>

definition valid_update :: \<open>session_update \<Rightarrow> bool\<close> where
  \<open>valid_update u =
     ((case u_title u of None \<Rightarrow> True | Some t \<Rightarrow> valid_title (trim t)) \<and>
      (case u_description u of None \<Rightarrow> True | Some d \<Rightarrow> valid_description (trim d)))\<close>

text \<open>
  \<^verbatim>\<open>findOneAndUpdate(filter, update, { new: true, runValidators })\<close>. The schema has
  \<^verbatim>\<open>timestamps: true\<close>, so the update also sets \<^verbatim>\<open>updatedAt\<close>. The hook
  \<^verbatim>\<open>pre('save')\<close> does not run here. The store changes the paths of the update only; the
  document that is returned is the updated one, hydrated.
\<close>

definition Session_findOneAndUpdate ::
  \<open>platform \<Rightarrow> session_filter \<Rightarrow> session_update \<Rightarrow> bool \<Rightarrow> world \<Rightarrow> session option result\<close> where
  \<open>Session_findOneAndUpdate pf f u runValidators w =
     (case castObjectId pf (f_id f) of
        None \<Rightarrow> (Inl CastError, w)
      | Some _ \<Rightarrow>
          if runValidators \<and> \<not> valid_update u then (Inl ValidationError, w)
          else
            and_then (call (DbFindOneAndUpdate f) w) (\<lambda>_ w1.
              case matching pf f w1 of
                None \<Rightarrow> (Inr None, w1)
              | Some (i, s) \<Rightarrow>
                  (let s' = (apply_update u s)\<lparr>updatedAt := clock w1\<rparr>
                   in (Inr (Some (hydrate (clock w1) s')), w1\<lparr>db := AList.update i s' (db w1)\<rparr>))))\<close>

text \<open>
  The query of the list: the sessions of a user that are active and, with a search, whose
  title, description or one of whose tags has a match of the search.
\<close>

definition matches_query :: \<open>platform \<Rightarrow> list_query \<Rightarrow> session \<Rightarrow> bool\<close> where
  \<open>matches_query pf q s =
     (userId s = q_userId q \<and> isActive s = q_isActive q \<and>
      (case q_search q of
         None \<Rightarrow> True
       | Some p \<Rightarrow>
           (case RegExp_i pf p of
              None \<Rightarrow> False
            | Some test \<Rightarrow> test (title s) \<or> test (description s) \<or> list_ex test (tags s))))\<close>

text \<open>
  \<^verbatim>\<open>find(query).sort({ lastAccessed: -1 }).skip(skip).limit(limit).select(...)\<close>. The
  server refuses a negative skip; a limit of 0 is no limit.
\<close>

definition found_page :: \<open>platform \<Rightarrow> list_query \<Rightarrow> int \<Rightarrow> nat \<Rightarrow> session list \<Rightarrow> session list\<close> where
  \<open>found_page pf q skip limit docs =
     (let found = filter (matches_query pf q) docs;
          sorted = sort_key (\<lambda>s. - int (lastAccessed s)) found;
          skipped = drop (nat skip) sorted;
          limited = (if limit = 0 then skipped else take limit skipped)
      in map (\<lambda>s. s\<lparr>chatHistory := None, componentCode := None, uiState := None\<rparr>) limited)\<close>

definition Session_find :: \<open>platform \<Rightarrow> list_query \<Rightarrow> int \<Rightarrow> nat \<Rightarrow> world \<Rightarrow> session list result\<close> where
  \<open>Session_find pf q skip limit w =
     and_then (call (DbFind q) w) (\<lambda>_ w1.
       if skip < 0 then (Inl MongoServerError, w1)
       else (Inr (found_page pf q skip limit (map snd (db w1))), w1))\<close>

definition Session_countDocuments :: \<open>platform \<Rightarrow> list_query \<Rightarrow> world \<Rightarrow> nat result\<close> where
  \<open>Session_countDocuments pf q w =
     and_then (call (DbCountDocuments q) w) (\<lambda>_ w1.
       (Inr (length (filter (matches_query pf q) (map snd (db w1)))), w1))\<close>

text \<open>
  \<^verbatim>\<open>save()\<close>: the document is validated, the hook \<^verbatim>\<open>pre('save')\<close> sets
  \<^verbatim>\<open>lastAccessed\<close>, the timestamps are set, and the document is written.
\<close>

definition Session_save :: \<open>bool \<Rightarrow> session \<Rightarrow> world \<Rightarrow> session result\<close> where
  \<open>Session_save isNew s w =
     (if \<not> valid_session s then (Inl ValidationError, w)
      else
        (let s' = s\<lparr>lastAccessed := clock w,
                    createdAt := (if isNew then clock w else createdAt s),
                    updatedAt := clock w\<rparr>
         in and_then (call (DbSave s') w) (\<lambda>_ w1.
              (Inr s', w1\<lparr>db := AList.update (doc_id s) s' (db w1)\<rparr>))))\<close>

text \<open>The methods of the schema.\<close>

definition addChatMessage :: \<open>session \<Rightarrow> string \<Rightarrow> string \<Rightarrow> object option \<Rightarrow> world \<Rightarrow> session result\<close> where
  \<open>addChatMessage s r c md w =
     (case chatHistory s of
        None \<Rightarrow> (Inl TypeError, w)
      | Some ms \<Rightarrow>
          Session_save False
            (s\<lparr>chatHistory :=
                 Some (ms @ [\<lparr>role = r, content = c, timestamp = clock w,
                              msg_metadata = (case md of None \<Rightarrow> [] | Some m \<Rightarrow> m)\<rparr>])\<rparr>) w)\<close>

definition updateComponentCode :: \<open>session \<Rightarrow> string \<Rightarrow> string \<Rightarrow> string option \<Rightarrow> world \<Rightarrow> session result\<close> where
  \<open>updateComponentCode s j c t w =
     (case componentCode s of
        None \<Rightarrow> (Inl TypeError, w)
      | Some cc \<Rightarrow>
          Session_save False
            (s\<lparr>componentCode :=
                 Some (cc\<lparr>jsx := j, css := c, tsx := (case t of None \<Rightarrow> [] | Some x \<Rightarrow> x),
                          version := version cc + 1, lastModified := clock w\<rparr>)\<rparr>) w)\<close>

text \<open>
  In \<^verbatim>\<open>updateUIState\<close> the spread of the subdocument and of the argument is assigned to
  the path \<^verbatim>\<open>uiState\<close>, so it is cast to a new subdocument.
\<close>

definition updateUIState :: \<open>platform \<Rightarrow> session \<Rightarrow> ui_state_fields \<Rightarrow> world \<Rightarrow> session result\<close> where
  \<open>updateUIState pf s u w =
     Session_save False
       (s\<lparr>uiState :=
            Some (cast_ui_state
                    (spread_fields (case uiState s of None \<Rightarrow> no_fields | Some x \<Rightarrow> own_properties pf x) u))\<rparr>) w\<close>

section \<open>The Redis cache\<close>

text \<open>
  \<^verbatim>\<open>backend/config/redis.js\<close>. A value is stored as the JSON that
  \<^verbatim>\<open>JSON.stringify\<close> writes and \<^verbatim>\<open>JSON.parse\<close> reads back; a key is gone once its
  time to live, in seconds, has passed.
\<close>

definition getRedisClient :: \<open>world \<Rightarrow> unit result\<close> where
  \<open>getRedisClient w =
     (if \<not> redisClient w then (Inl (Error ''Redis client not initialized''), w) else (Inr (), w))\<close>

definition setEx :: \<open>string \<Rightarrow> nat \<Rightarrow> json \<Rightarrow> world \<Rightarrow> unit result\<close> where
  \<open>setEx key ttl v w =
     and_then (call (RedisSetEx key ttl v) w) (\<lambda>_ w1.
       (Inr (), w1\<lparr>redis := (redis w1)(key \<mapsto> (clock w1 + ttl * 1000, v))\<rparr>))\<close>

definition live_value :: \<open>world \<Rightarrow> string \<Rightarrow> json option\<close> where
  \<open>live_value w key =
     (case redis w key of
        None \<Rightarrow> None
      | Some (expires, v) \<Rightarrow> if clock w < expires then Some v else None)\<close>

definition redis_get :: \<open>string \<Rightarrow> world \<Rightarrow> json option result\<close> where
  \<open>redis_get key w =
     and_then (call (RedisGet key) w) (\<lambda>_ w1. (Inr (live_value w1 key), w1))\<close>

definition setSessionData :: \<open>string \<Rightarrow> json \<Rightarrow> nat option \<Rightarrow> world \<Rightarrow> unit result\<close> where
  \<open>setSessionData sessionId data ttl w =
     and_then (getRedisClient w) (\<lambda>_ w1.
       setEx (''session:'' @ sessionId) (case ttl of None \<Rightarrow> 3600 | Some t \<Rightarrow> t) data w1)\<close>

definition getSessionData :: \<open>string \<Rightarrow> world \<Rightarrow> json result\<close> where
  \<open>getSessionData sessionId w =
     and_then (getRedisClient w) (\<lambda>_ w1.
       and_then (redis_get (''session:'' @ sessionId) w1) (\<lambda>data w2.
         (Inr (case data of None \<Rightarrow> JNull | Some v \<Rightarrow> v), w2)))\<close>

definition setCache :: \<open>string \<Rightarrow> json \<Rightarrow> nat option \<Rightarrow> world \<Rightarrow> unit result\<close> where
  \<open>setCache key data ttl w =
     and_then (getRedisClient w) (\<lambda>_ w1.
       setEx key (case ttl of None \<Rightarrow> 300 | Some t \<Rightarrow> t) data w1)\<close>

definition getCache :: \<open>string \<Rightarrow> world \<Rightarrow> json result\<close> where
  \<open>getCache key w =
     and_then (getRedisClient w) (\<lambda>_ w1.
       and_then (redis_get key w1) (\<lambda>data w2.
         (Inr (case data of None \<Rightarrow> JNull | Some v \<Rightarrow> v), w2)))\<close>

section \<open>Responses\<close>

text \<open>The statistics of \<^verbatim>\<open>GET /:sessionId/stats\<close>.\<close>

record stats =
  st_messageCount :: nat
  st_codeVersion :: nat
  st_lastModified :: date
  st_createdAt :: date
  st_lastAccessed :: date
  st_userMessages :: nat
  st_assistantMessages :: nat

text \<open>
  The JSON bodies that the handlers send, one constructor for each shape:
  \<^verbatim>\<open>{ error }\<close>, \<^verbatim>\<open>{ error, details }\<close>, \<^verbatim>\<open>{ sessions, pagination: { page, limit, total, pages } }\<close>
  (\<open>pages\<close> is \<open>None\<close> when the division does not give a number that JSON can print),
  \<^verbatim>\<open>{ session }\<close>, \<^verbatim>\<open>{ message, session }\<close>, \<^verbatim>\<open>{ message }\<close>,
  \<^verbatim>\<open>{ message, messageCount }\<close>, \<^verbatim>\<open>{ message, componentCode }\<close>, \<^verbatim>\<open>{ message, uiState }\<close>,
  \<^verbatim>\<open>{ stats }\<close> and \<^verbatim>\<open>{ success: true, data, cached }\<close> (\<open>cached\<close> is \<open>None\<close> where
  the body has no such field).
\<close>

datatype body =
    BError string
  | BErrorDetails string string
  | BSessions \<open>session list\<close> nat nat nat \<open>nat option\<close>
  | BSession session
  | BMessageSession string session
  | BMessage string
  | BMessageCount string nat
  | BMessageCode string \<open>component_code option\<close>
  | BMessageUi string \<open>ui_state option\<close>
  | BStats stats
  | BAi json \<open>bool option\<close>

record response =
  status :: nat
  body :: body

definition respond :: \<open>nat \<Rightarrow> body \<Rightarrow> world \<Rightarrow> response result\<close> where
  \<open>respond st b w = (Inr \<lparr>status = st, body = b\<rparr>, w)\<close>

text \<open>
  The \<^verbatim>\<open>try ... catch\<close> of every handler: what the block throws is answered with
  status 500 and the handler's message, and nothing else is done.
\<close>

definition catch_500 :: \<open>string \<Rightarrow> response result \<Rightarrow> response \<times> world\<close> where
  \<open>catch_500 msg r =
     (case r of
        (Inl e, w) \<Rightarrow> (\<lparr>status = 500, body = BError msg\<rparr>, w)
      | (Inr res, w) \<Rightarrow> (res, w))\<close>

section \<open>The sessions router\<close>

text \<open>\<^verbatim>\<open>backend/routes/sessions.js\<close>.\<close>

definition default_component_code :: \<open>date \<Rightarrow> component_code\<close> where
  \<open>default_component_code now = \<lparr>jsx = [], css = [], tsx = [], version = 1, lastModified = now\<rparr>\<close>

definition default_ui_state :: ui_state where
  \<open>default_ui_state =
     \<lparr>selectedElement = None, properties = [],
      viewport = \<lparr>width = 1200, height = 800\<rparr>, theme = ''light''\<rparr>\<close>

definition ensureSessionDefaults :: \<open>date \<Rightarrow> session \<Rightarrow> session\<close> where
  \<open>ensureSessionDefaults now s =
     s\<lparr>chatHistory := Some (case chatHistory s of None \<Rightarrow> [] | Some ms \<Rightarrow> ms),
       tags := tags s,
       componentCode := Some (case componentCode s of None \<Rightarrow> default_component_code now | Some c \<Rightarrow> c),
       uiState := Some (case uiState s of None \<Rightarrow> default_ui_state | Some u \<Rightarrow> u)\<rparr>\<close>

text \<open>What \<^verbatim>\<open>JSON.stringify\<close> writes for the parts of a session; a date is written as its number.\<close>

definition chat_message_json :: \<open>chat_message \<Rightarrow> json\<close> where
  \<open>chat_message_json m =
     JObj [(''role'', JStr (role m)), (''content'', JStr (content m)),
           (''timestamp'', JNum (of_nat (timestamp m))), (''metadata'', JObj (msg_metadata m))]\<close>

definition component_code_json :: \<open>component_code \<Rightarrow> json\<close> where
  \<open>component_code_json c =
     JObj [(''jsx'', JStr (jsx c)), (''css'', JStr (css c)), (''tsx'', JStr (tsx c)),
           (''version'', JNum (of_nat (version c))), (''lastModified'', JNum (of_nat (lastModified c)))]\<close>

definition ui_state_json :: \<open>ui_state \<Rightarrow> json\<close> where
  \<open>ui_state_json u =
     JObj [(''selectedElement'', (case selectedElement u of None \<Rightarrow> JNull | Some e \<Rightarrow> JStr e)),
           (''properties'', JObj (properties u)),
           (''viewport'', JObj [(''width'', JNum (width (viewport u))), (''height'', JNum (height (viewport u)))]),
           (''theme'', JStr (theme u))]\<close>

text \<open>
  The session data that \<^verbatim>\<open>GET /:sessionId\<close> mirrors, with its defaults, and the data that
  the three writes mirror, where a field that is \<^verbatim>\<open>undefined\<close> is not written.
\<close>

definition session_data_or_defaults :: \<open>session \<Rightarrow> json\<close> where
  \<open>session_data_or_defaults s =
     JObj [(''chatHistory'', JArr (map chat_message_json (case chatHistory s of None \<Rightarrow> [] | Some ms \<Rightarrow> ms))),
           (''componentCode'', (case componentCode s of None \<Rightarrow> JObj [] | Some c \<Rightarrow> component_code_json c)),
           (''uiState'', (case uiState s of None \<Rightarrow> JObj [] | Some u \<Rightarrow> ui_state_json u))]\<close>

definition session_data :: \<open>session \<Rightarrow> json\<close> where
  \<open>session_data s =
     JObj ((case chatHistory s of None \<Rightarrow> [] | Some ms \<Rightarrow> [(''chatHistory'', JArr (map chat_message_json ms))]) @
           (case componentCode s of None \<Rightarrow> [] | Some c \<Rightarrow> [(''componentCode'', component_code_json c)]) @
           (case uiState s of None \<Rightarrow> [] | Some u \<Rightarrow> [(''uiState'', ui_state_json u)]))\<close>

definition owned :: \<open>string \<Rightarrow> oid \<Rightarrow> session_filter\<close> where
  \<open>owned sessionId user = \<lparr>f_id = sessionId, f_userId = user, f_isActive = True\<rparr>\<close>

text \<open>\<^verbatim>\<open>GET /\<close>: the page and the limit are the numbers that the query string gives.\<close>

definition get_sessions_try ::
  \<open>platform \<Rightarrow> oid \<Rightarrow> nat option \<Rightarrow> nat option \<Rightarrow> string option \<Rightarrow> world \<Rightarrow> response result\<close> where
  \<open>get_sessions_try pf user page_opt limit_opt search w =
     (let page = (case page_opt of None \<Rightarrow> 1 | Some p \<Rightarrow> p);
          limit = (case limit_opt of None \<Rightarrow> 10 | Some l \<Rightarrow> l);
          skip = (int page - 1) * int limit;
          query = \<lparr>q_userId = user, q_isActive = True,
                   q_search = (case search of None \<Rightarrow> None | Some s \<Rightarrow> if s \<noteq> [] then Some s else None)\<rparr>
      in if (case q_search query of None \<Rightarrow> False | Some s \<Rightarrow> RegExp_i pf s = None)
         then (Inl SyntaxError, w)
         else
           and_then (Session_find pf query skip limit w) (\<lambda>sessions w1.
             and_then (Session_countDocuments pf query w1) (\<lambda>total w2.
               respond 200
                 (BSessions (map (ensureSessionDefaults (clock w2)) sessions) page limit total
                    (if limit = 0 then None else Some ((total + limit - 1) div limit))) w2)))\<close>

definition get_sessions ::
  \<open>platform \<Rightarrow> oid \<Rightarrow> nat option \<Rightarrow> nat option \<Rightarrow> string option \<Rightarrow> world \<Rightarrow> response \<times> world\<close> where
  \<open>get_sessions pf user page_opt limit_opt search w =
     catch_500 ''Failed to fetch sessions'' (get_sessions_try pf user page_opt limit_opt search w)\<close>

text \<open>\<^verbatim>\<open>GET /:sessionId\<close>.\<close>

definition get_session_try :: \<open>platform \<Rightarrow> oid \<Rightarrow> string \<Rightarrow> world \<Rightarrow> response result\<close> where
  \<open>get_session_try pf user sessionId w =
     and_then (Session_findOne pf (owned sessionId user) w) (\<lambda>found w1.
       case found of
         None \<Rightarrow> respond 404 (BError ''Session not found'') w1
       | Some s \<Rightarrow>
           and_then (setSessionData sessionId (session_data_or_defaults s) None w1) (\<lambda>_ w2.
             respond 200 (BSession (ensureSessionDefaults (clock w2) s)) w2))\<close>

definition get_session :: \<open>platform \<Rightarrow> oid \<Rightarrow> string \<Rightarrow> world \<Rightarrow> response \<times> world\<close> where
  \<open>get_session pf user sessionId w =
     catch_500 ''Failed to fetch session'' (get_session_try pf user sessionId w)\<close>

text \<open>\<^verbatim>\<open>POST /\<close>.\<close>

definition new_session :: \<open>oid \<Rightarrow> oid \<Rightarrow> string \<Rightarrow> string option \<Rightarrow> string list option \<Rightarrow> date \<Rightarrow> session\<close> where
  \<open>new_session i user t d ts now =
     \<lparr>doc_id = i, userId = user, title = trim t,
      description = trim (case d of None \<Rightarrow> [] | Some x \<Rightarrow> x),
      chatHistory = Some [],
      componentCode = Some (default_component_code now),
      uiState = Some default_ui_state,
      isActive = True, lastAccessed = now,
      tags = map trim (case ts of None \<Rightarrow> [] | Some x \<Rightarrow> x),
      metadata = [], createdAt = now, updatedAt = now\<rparr>\<close>

definition post_session_try ::
  \<open>platform \<Rightarrow> oid \<Rightarrow> string option \<Rightarrow> string option \<Rightarrow> string list option \<Rightarrow> world \<Rightarrow> response result\<close> where
  \<open>post_session_try pf user t d ts w =
     (case t of
        None \<Rightarrow> respond 400 (BError ''Title is required'') w
      | Some t' \<Rightarrow>
          if t' = [] then respond 400 (BError ''Title is required'') w
          else
            (let s = new_session (next_oid w) user t' d ts (clock w);
                 w0 = w\<lparr>next_oid := Suc (next_oid w)\<rparr>
             in and_then (Session_save True s w0) (\<lambda>s' w1.
                  respond 201
                    (BMessageSession ''Session created successfully'' (ensureSessionDefaults (clock w1) s')) w1)))\<close>

definition post_session ::
  \<open>platform \<Rightarrow> oid \<Rightarrow> string option \<Rightarrow> string option \<Rightarrow> string list option \<Rightarrow> world \<Rightarrow> response \<times> world\<close> where
  \<open>post_session pf user t d ts w =
     catch_500 ''Failed to create session'' (post_session_try pf user t d ts w)\<close>

text \<open>\<^verbatim>\<open>PUT /:sessionId\<close>.\<close>

definition put_session_try ::
  \<open>platform \<Rightarrow> oid \<Rightarrow> string \<Rightarrow> string option \<Rightarrow> string option \<Rightarrow> string list option \<Rightarrow> world \<Rightarrow> response result\<close> where
  \<open>put_session_try pf user sessionId t d ts w =
     and_then
       (Session_findOneAndUpdate pf (owned sessionId user)
          \<lparr>u_title = t, u_description = d, u_tags = ts, u_lastAccessed = Some (clock w), u_isActive = None\<rparr>
          True w)
       (\<lambda>found w1.
          case found of
            None \<Rightarrow> respond 404 (BError ''Session not found'') w1
          | Some s \<Rightarrow> respond 200 (BMessageSession ''Session updated successfully'' s) w1)\<close>

definition put_session ::
  \<open>platform \<Rightarrow> oid \<Rightarrow> string \<Rightarrow> string option \<Rightarrow> string option \<Rightarrow> string list option \<Rightarrow> world \<Rightarrow> response \<times> world\<close> where
  \<open>put_session pf user sessionId t d ts w =
     catch_500 ''Failed to update session'' (put_session_try pf user sessionId t d ts w)\<close>

text \<open>\<^verbatim>\<open>DELETE /:sessionId\<close>.\<close>

definition delete_session_try :: \<open>platform \<Rightarrow> oid \<Rightarrow> string \<Rightarrow> world \<Rightarrow> response result\<close> where
  \<open>delete_session_try pf user sessionId w =
     and_then
       (Session_findOneAndUpdate pf (owned sessionId user)
          \<lparr>u_title = None, u_description = None, u_tags = None, u_lastAccessed = None, u_isActive = Some False\<rparr>
          False w)
       (\<lambda>found w1.
          case found of
            None \<Rightarrow> respond 404 (BError ''Session not found'') w1
          | Some s \<Rightarrow>
              and_then (setSessionData sessionId JNull None w1) (\<lambda>_ w2.
                respond 200 (BMessage ''Session deleted successfully'') w2))\<close>

definition delete_session :: \<open>platform \<Rightarrow> oid \<Rightarrow> string \<Rightarrow> world \<Rightarrow> response \<times> world\<close> where
  \<open>delete_session pf user sessionId w =
     catch_500 ''Failed to delete session'' (delete_session_try pf user sessionId w)\<close>

text \<open>\<^verbatim>\<open>POST /:sessionId/chat\<close>.\<close>

definition post_chat_try ::
  \<open>platform \<Rightarrow> oid \<Rightarrow> string \<Rightarrow> string option \<Rightarrow> string option \<Rightarrow> object option \<Rightarrow> world \<Rightarrow> response result\<close> where
  \<open>post_chat_try pf user sessionId r c md w =
     (case (r, c) of
        (Some r', Some c') \<Rightarrow>
          if r' = [] \<or> c' = [] then respond 400 (BError ''Role and content are required'') w
          else
            and_then (Session_findOne pf (owned sessionId user) w) (\<lambda>found w1.
              case found of
                None \<Rightarrow> respond 404 (BError ''Session not found'') w1
              | Some s \<Rightarrow>
                  and_then (addChatMessage s r' c' md w1) (\<lambda>s' w2.
                    and_then (setSessionData sessionId (session_data s') None w2) (\<lambda>_ w3.
                      case chatHistory s' of
                        None \<Rightarrow> (Inl TypeError, w3)
                      | Some ms \<Rightarrow>
                          respond 200 (BMessageCount ''Chat message added successfully'' (length ms)) w3)))
      | _ \<Rightarrow> respond 400 (BError ''Role and content are required'') w)\<close>

definition post_chat ::
  \<open>platform \<Rightarrow> oid \<Rightarrow> string \<Rightarrow> string option \<Rightarrow> string option \<Rightarrow> object option \<Rightarrow> world \<Rightarrow> response \<times> world\<close> where
  \<open>post_chat pf user sessionId r c md w =
     catch_500 ''Failed to add chat message'' (post_chat_try pf user sessionId r c md w)\<close>

text \<open>\<^verbatim>\<open>PUT /:sessionId/code\<close>.\<close>

definition put_code_try ::
  \<open>platform \<Rightarrow> oid \<Rightarrow> string \<Rightarrow> string \<Rightarrow> string \<Rightarrow> string option \<Rightarrow> world \<Rightarrow> response result\<close> where
  \<open>put_code_try pf user sessionId j c t w =
     and_then (Session_findOne pf (owned sessionId user) w) (\<lambda>found w1.
       case found of
         None \<Rightarrow> respond 404 (BError ''Session not found'') w1
       | Some s \<Rightarrow>
           and_then (updateComponentCode s j c t w1) (\<lambda>s' w2.
             and_then (setSessionData sessionId (session_data s') None w2) (\<lambda>_ w3.
               respond 200 (BMessageCode ''Component code updated successfully'' (componentCode s')) w3)))\<close>

definition put_code ::
  \<open>platform \<Rightarrow> oid \<Rightarrow> string \<Rightarrow> string \<Rightarrow> string \<Rightarrow> string option \<Rightarrow> world \<Rightarrow> response \<times> world\<close> where
  \<open>put_code pf user sessionId j c t w =
     catch_500 ''Failed to update component code'' (put_code_try pf user sessionId j c t w)\<close>

text \<open>\<^verbatim>\<open>PUT /:sessionId/ui-state\<close>.\<close>

definition put_ui_state_try :: \<open>platform \<Rightarrow> oid \<Rightarrow> string \<Rightarrow> ui_state_fields \<Rightarrow> world \<Rightarrow> response result\<close> where
  \<open>put_ui_state_try pf user sessionId u w =
     and_then (Session_findOne pf (owned sessionId user) w) (\<lambda>found w1.
       case found of
         None \<Rightarrow> respond 404 (BError ''Session not found'') w1
       | Some s \<Rightarrow>
           and_then (updateUIState pf s u w1) (\<lambda>s' w2.
             and_then (setSessionData sessionId (session_data s') None w2) (\<lambda>_ w3.
               respond 200 (BMessageUi ''UI state updated successfully'' (uiState s')) w3)))\<close>

definition put_ui_state :: \<open>platform \<Rightarrow> oid \<Rightarrow> string \<Rightarrow> ui_state_fields \<Rightarrow> world \<Rightarrow> response \<times> world\<close> where
  \<open>put_ui_state pf user sessionId u w =
     catch_500 ''Failed to update UI state'' (put_ui_state_try pf user sessionId u w)\<close>

text \<open>\<^verbatim>\<open>GET /:sessionId/stats\<close>.\<close>

definition get_stats_try :: \<open>platform \<Rightarrow> oid \<Rightarrow> string \<Rightarrow> world \<Rightarrow> response result\<close> where
  \<open>get_stats_try pf user sessionId w =
     and_then (Session_findOne pf (owned sessionId user) w) (\<lambda>found w1.
       case found of
         None \<Rightarrow> respond 404 (BError ''Session not found'') w1
       | Some s \<Rightarrow>
           (case (chatHistory s, componentCode s) of
              (Some ms, Some cc) \<Rightarrow>
                respond 200
                  (BStats \<lparr>st_messageCount = length ms,
                           st_codeVersion = version cc,
                           st_lastModified = lastModified cc,
                           st_createdAt = createdAt s,
                           st_lastAccessed = lastAccessed s,
                           st_userMessages = length (filter (\<lambda>msg. role msg = ''user'') ms),
                           st_assistantMessages = length (filter (\<lambda>msg. role msg = ''assistant'') ms)\<rparr>) w1
            | _ \<Rightarrow> (Inl TypeError, w1)))\<close>

definition get_stats :: \<open>platform \<Rightarrow> oid \<Rightarrow> string \<Rightarrow> world \<Rightarrow> response \<times> world\<close> where
  \<open>get_stats pf user sessionId w =
     catch_500 ''Failed to get session statistics'' (get_stats_try pf user sessionId w)\<close>

section \<open>The AI router\<close>

text \<open>\<^verbatim>\<open>backend/routes/ai.js\<close>.\<close>

text \<open>
  A message of the chat history in the body of a request, and the code in the body of a
  request, which is a string or an object with the optional fields \<^verbatim>\<open>jsx\<close>, \<^verbatim>\<open>css\<close>
  and \<^verbatim>\<open>tsx\<close>.
\<close>

record history_message =
  h_role :: string
  h_content :: string

datatype code_arg =
    CodeString string
  | CodeObject \<open>string option\<close> \<open>string option\<close> \<open>string option\<close>

text \<open>
  \<^verbatim>\<open>code.jsx || code\<close>, \<^verbatim>\<open>code.css || ''\<close>, \<^verbatim>\<open>code.tsx || ''\<close> and \<^verbatim>\<open>code\<close> itself, as a
  template prints them, and whether \<^verbatim>\<open>code\<close> is truthy.
\<close>

fun jsx_or_self :: \<open>code_arg \<Rightarrow> string\<close> where
  \<open>jsx_or_self (CodeString s) = s\<close>
| \<open>jsx_or_self (CodeObject (Some j) _ _) = (if j \<noteq> [] then j else ''[object Object]'')\<close>
| \<open>jsx_or_self (CodeObject None _ _) = ''[object Object]''\<close>

fun css_or_empty :: \<open>code_arg \<Rightarrow> string\<close> where
  \<open>css_or_empty (CodeString s) = []\<close>
| \<open>css_or_empty (CodeObject _ (Some c) _) = c\<close>
| \<open>css_or_empty (CodeObject _ None _) = []\<close>

fun tsx_or_empty :: \<open>code_arg \<Rightarrow> string\<close> where
  \<open>tsx_or_empty (CodeString s) = []\<close>
| \<open>tsx_or_empty (CodeObject _ _ (Some t)) = t\<close>
| \<open>tsx_or_empty (CodeObject _ _ None) = []\<close>

fun code_string :: \<open>code_arg \<Rightarrow> string\<close> where
  \<open>code_string (CodeString s) = s\<close>
| \<open>code_string (CodeObject _ _ _) = ''[object Object]''\<close>

fun code_given :: \<open>code_arg option \<Rightarrow> bool\<close> where
  \<open>code_given None = False\<close>
| \<open>code_given (Some (CodeString s)) = (s \<noteq> [])\<close>
| \<open>code_given (Some (CodeObject _ _ _)) = True\<close>

definition generateComponentPrompt ::
  \<open>string \<Rightarrow> code_arg option \<Rightarrow> history_message list option \<Rightarrow> string\<close> where
  \<open>generateComponentPrompt userPrompt existingCode chatHistory_opt =
     (let chatHistory = (case chatHistory_opt of None \<Rightarrow> [] | Some h \<Rightarrow> h);
          prompt0 = concat
            [''You are an expert React developer. Generate a complete React component based on the user's request.'', nl,
             nl,
             ''IMPORTANT REQUIREMENTS:'', nl,
             ''1. Generate a standalone React functional component (no imports needed)'', nl,
             ''2. Use only React hooks (useState, useEffect) - no external libraries'', nl,
             ''3. Include all CSS styles in a separate CSS block'', nl,
             ''4. Make the component self-contained and preview-friendly'', nl,
             ''5. Use semantic HTML elements and modern design principles'', nl,
             ''6. Make the component responsive and accessible'', nl,
             ''7. Use inline styles or CSS classes for styling'', nl,
             ''8. Do NOT include import statements or export statements'', nl,
             ''9. The component should work in a browser environment with React 18'', nl,
             nl,
             ''User Request: '', userPrompt, nl,
             nl];
          prompt1 =
            (case existingCode of
               None \<Rightarrow> prompt0
             | Some code \<Rightarrow>
                 if \<not> code_given (Some code) then prompt0
                 else prompt0 @ concat
                    [nl,
                     ''Existing Code:'', nl,
                     code_string code, nl,
                     nl,
                     ''Please modify/improve the existing code based on the new request.'']);
          prompt2 =
            (if length chatHistory > 0
             then prompt1 @ concat
                [nl,
                 nl,
                 ''Previous conversation context:'', nl] @
                  concat (map (\<lambda>msg. concat
                        [h_role msg, '': '', h_content msg, nl])
                            (drop (length chatHistory - 5) chatHistory))
             else prompt1)
      in prompt2 @ concat
            [nl,
             nl,
             ''Please provide the response in the following JSON format:'', nl,
             ''{'', nl,
             ''  "jsx": "// React JSX code here",'', nl,
             ''  "css": "// CSS styles here",'', nl,
             ''  "tsx": "// TypeScript version if applicable",'', nl,
             ''  "explanation": "Brief explanation of the component and its features"'', nl,
             ''}''])\<close>

text \<open>
  The call of the generative language API, the same in the four handlers: the request is
  sent; a response that is not \<^verbatim>\<open>ok\<close> is thrown as an error with the message of the
  response or with the status, a body without content as an error, and otherwise the text of
  the first part of the first candidate is the result.
\<close>

fun api_result :: \<open>api_reply \<Rightarrow> exn + string\<close> where
  \<open>api_result (NotOk None st) = Inl (Error (''HTTP error! status: '' @ decimal st))\<close>
| \<open>api_result (NotOk (Some m) st) = Inl (Error (if m \<noteq> [] then m else ''HTTP error! status: '' @ decimal st))\<close>
| \<open>api_result NotJson = Inl SyntaxError\<close>
| \<open>api_result NoContent = Inl (Error ''No content received from the API.'')\<close>
| \<open>api_result (Text text) = Inr text\<close>

definition call_api :: \<open>string \<Rightarrow> world \<Rightarrow> string result\<close> where
  \<open>call_api aiPrompt w =
     and_then (call (Fetch aiPrompt) w) (\<lambda>_ w1. (api_result (gemini w1 aiPrompt), w1))\<close>

text \<open>The regular expression \<^verbatim>\<open>/\{[\s\S]*\}/\<close> of the four parse blocks, with its class \<^verbatim>\<open>[\s\S]\<close>.\<close>

definition space_or_not :: \<open>char \<Rightarrow> bool\<close> where
  \<open>space_or_not c = (is_space c \<or> \<not> is_space c)\<close>

definition json_rx :: rx where
  \<open>json_rx = Seq (Chr (\<lambda>c. c = CHR ''{'')) (Seq (Star (Chr space_or_not)) (Chr (\<lambda>c. c = CHR ''}'')))\<close>

text \<open>
  A parse block: the match of the regular expression is parsed; without a match the first
  fallback is the result, and when the parse throws, the second.
\<close>

definition parse_block :: \<open>platform \<Rightarrow> string \<Rightarrow> json \<Rightarrow> json \<Rightarrow> json\<close> where
  \<open>parse_block pf text no_match parse_error =
     (case rx_match json_rx text of
        Some jsonMatch \<Rightarrow>
          (case JSON_parse pf jsonMatch of
             Some parsed \<Rightarrow> parsed
           | None \<Rightarrow> parse_error)
      | None \<Rightarrow> no_match)\<close>

text \<open>The message of an error, for the \<^verbatim>\<open>details\<close> of a response.\<close>

fun message :: \<open>exn \<Rightarrow> string\<close> where
  \<open>message (Error m) = m\<close>
| \<open>message TypeError = ''TypeError''\<close>
| \<open>message SyntaxError = ''SyntaxError''\<close>
| \<open>message CastError = ''CastError''\<close>
| \<open>message ValidationError = ''ValidationError''\<close>
| \<open>message MongoServerError = ''MongoServerError''\<close>

definition catch_500_details :: \<open>string \<Rightarrow> response result \<Rightarrow> response \<times> world\<close> where
  \<open>catch_500_details msg r =
     (case r of
        (Inl e, w) \<Rightarrow> (\<lparr>status = 500, body = BErrorDetails msg (message e)\<rparr>, w)
      | (Inr res, w) \<Rightarrow> (res, w))\<close>

text \<open>\<^verbatim>\<open>POST /generate\<close>.\<close>

definition generate_fallback :: \<open>string \<Rightarrow> json\<close> where
  \<open>generate_fallback text =
     JObj [(''jsx'', JStr text), (''css'', JStr []), (''tsx'', JStr []),
           (''explanation'', JStr ''Generated component based on your request'')]\<close>

definition cacheKey :: \<open>string \<Rightarrow> string\<close> where
  \<open>cacheKey p = ''ai_generate:'' @ base64 p\<close>

definition post_generate_try ::
  \<open>platform \<Rightarrow> oid \<Rightarrow> string option \<Rightarrow> string option \<Rightarrow> code_arg option \<Rightarrow> history_message list option \<Rightarrow>
    world \<Rightarrow> response result\<close> where
  \<open>post_generate_try pf user prompt_opt sessionId existingCode chatHistory_opt w =
     (case prompt_opt of
        None \<Rightarrow> respond 400 (BError ''Prompt is required'') w
      | Some p \<Rightarrow>
          if p = [] then respond 400 (BError ''Prompt is required'') w
          else
            and_then (getCache (cacheKey p) w) (\<lambda>cachedResult w1.
              if truthy cachedResult then respond 200 (BAi cachedResult (Some True)) w1
              else
                and_then (call_api (generateComponentPrompt p existingCode chatHistory_opt) w1) (\<lambda>text w2.
                  let parsedResponse = parse_block pf text (generate_fallback text) (generate_fallback text)
                  in and_then (setCache (cacheKey p) parsedResponse (Some 3600) w2) (\<lambda>_ w3.
                       respond 200 (BAi parsedResponse (Some False)) w3))))\<close>

definition post_generate ::
  \<open>platform \<Rightarrow> oid \<Rightarrow> string option \<Rightarrow> string option \<Rightarrow> code_arg option \<Rightarrow> history_message list option \<Rightarrow>
    world \<Rightarrow> response \<times> world\<close> where
  \<open>post_generate pf user prompt_opt sessionId existingCode chatHistory_opt w =
     catch_500_details ''Failed to generate component''
       (post_generate_try pf user prompt_opt sessionId existingCode chatHistory_opt w)\<close>

text \<open>\<^verbatim>\<open>POST /refine\<close>.\<close>

definition refinePrompt :: \<open>string \<Rightarrow> code_arg \<Rightarrow> string\<close> where
  \<open>refinePrompt p currentCode =
     concat
      [''You are an expert React developer. Please refine/modify the existing React component based on the user's request.'', nl,
       nl,
       ''Current Component Code:'', nl,
       jsx_or_self currentCode, nl,
       nl,
       ''CSS:'', nl,
       css_or_empty currentCode, nl,
       nl,
       ''User's Refinement Request: '', p, nl,
       nl,
       ''Please provide the updated component in the same JSON format:'', nl,
       ''{'', nl,
       ''  "jsx": "// Updated React JSX code",'', nl,
       ''  "css": "// Updated CSS styles",'', nl,
       ''  "tsx": "// Updated TypeScript version if applicable",'', nl,
       ''  "explanation": "Brief explanation of the changes made"'', nl,
       ''}'', nl,
       nl,
       ''Make sure to preserve the existing functionality while applying the requested changes.'']\<close>

definition refine_fallback :: \<open>string \<Rightarrow> code_arg \<Rightarrow> json\<close> where
  \<open>refine_fallback text currentCode =
     JObj [(''jsx'', JStr text), (''css'', JStr (css_or_empty currentCode)),
           (''tsx'', JStr (tsx_or_empty currentCode)),
           (''explanation'', JStr ''Refined component based on your request'')]\<close>

definition post_refine_try ::
  \<open>platform \<Rightarrow> oid \<Rightarrow> string option \<Rightarrow> code_arg option \<Rightarrow> string option \<Rightarrow> world \<Rightarrow> response result\<close> where
  \<open>post_refine_try pf user prompt_opt currentCode_opt sessionId w =
     (case (prompt_opt, currentCode_opt) of
        (Some p, Some currentCode) \<Rightarrow>
          if p = [] \<or> \<not> code_given (Some currentCode)
          then respond 400 (BError ''Prompt and current code are required'') w
          else
            and_then (call_api (refinePrompt p currentCode) w) (\<lambda>text w1.
              respond 200
                (BAi (parse_block pf text (refine_fallback text currentCode) (refine_fallback text currentCode))
                   None) w1)
      | _ \<Rightarrow> respond 400 (BError ''Prompt and current code are required'') w)\<close>

definition post_refine ::
  \<open>platform \<Rightarrow> oid \<Rightarrow> string option \<Rightarrow> code_arg option \<Rightarrow> string option \<Rightarrow> world \<Rightarrow> response \<times> world\<close> where
  \<open>post_refine pf user prompt_opt currentCode_opt sessionId w =
     catch_500_details ''Failed to refine component''
       (post_refine_try pf user prompt_opt currentCode_opt sessionId w)\<close>

text \<open>\<^verbatim>\<open>POST /variations\<close>.\<close>

definition variationsPrompt :: \<open>code_arg \<Rightarrow> nat \<Rightarrow> string\<close> where
  \<open>variationsPrompt baseCode n =
     concat
      [''You are an expert React developer. Generate '', decimal n, '' different variations of the following React component. Each variation should have a different style, layout, or approach while maintaining the same core functionality.'', nl,
       nl,
       ''Base Component:'', nl,
       jsx_or_self baseCode, nl,
       nl,
       ''CSS:'', nl,
       css_or_empty baseCode, nl,
       nl,
       ''Please provide '', decimal n, '' variations in the following JSON format:'', nl,
       ''{'', nl,
       ''  "variations": ['', nl,
       ''    {'', nl,
       ''      "name": "Variation 1 Name",'', nl,
       ''      "jsx": "// JSX code for variation 1",'', nl,
       ''      "css": "// CSS for variation 1",'', nl,
       ''      "description": "Brief description of this variation"'', nl,
       ''    },'', nl,
       ''    // ... more variations'', nl,
       ''  ]'', nl,
       ''}'']\<close>

definition variations_fallback :: \<open>string \<Rightarrow> code_arg \<Rightarrow> json\<close> where
  \<open>variations_fallback text baseCode =
     JObj [(''variations'',
            JArr [JObj [(''name'', JStr ''Default Variation''), (''jsx'', JStr text),
                        (''css'', JStr (css_or_empty baseCode)),
                        (''description'', JStr ''Generated variation'')]])]\<close>

definition post_variations_try ::
  \<open>platform \<Rightarrow> oid \<Rightarrow> code_arg option \<Rightarrow> nat option \<Rightarrow> world \<Rightarrow> response result\<close> where
  \<open>post_variations_try pf user baseCode_opt count_opt w =
     (case baseCode_opt of
        None \<Rightarrow> respond 400 (BError ''Base code is required'') w
      | Some baseCode \<Rightarrow>
          if \<not> code_given (Some baseCode) then respond 400 (BError ''Base code is required'') w
          else
            and_then
              (call_api (variationsPrompt baseCode (case count_opt of None \<Rightarrow> 3 | Some n \<Rightarrow> n)) w)
              (\<lambda>text w1.
                 respond 200
                   (BAi (parse_block pf text (variations_fallback text baseCode)
                           (variations_fallback text baseCode)) None) w1))\<close>

definition post_variations ::
  \<open>platform \<Rightarrow> oid \<Rightarrow> code_arg option \<Rightarrow> nat option \<Rightarrow> world \<Rightarrow> response \<times> world\<close> where
  \<open>post_variations pf user baseCode_opt count_opt w =
     catch_500_details ''Failed to generate variations'' (post_variations_try pf user baseCode_opt count_opt w)\<close>

text \<open>\<^verbatim>\<open>POST /analyze\<close>.\<close>

definition analyzePrompt :: \<open>code_arg \<Rightarrow> string\<close> where
  \<open>analyzePrompt code =
     concat
      [''You are an expert React developer and code reviewer. Analyze the following React component code and provide feedback on:'', nl,
       nl,
       ''1. Code quality and best practices'', nl,
       ''2. Performance considerations'', nl,
       ''3. Accessibility improvements'', nl,
       ''4. Security considerations'', nl,
       ''5. Suggested optimizations'', nl,
       ''6. Potential bugs or issues'', nl,
       nl,
       ''Component Code:'', nl,
       jsx_or_self code, nl,
       nl,
       ''CSS:'', nl,
       css_or_empty code, nl,
       nl,
       ''Please provide a comprehensive analysis in JSON format:'', nl,
       ''{'', nl,
       ''  "analysis": {'', nl,
       ''    "codeQuality": "Assessment of code quality",'', nl,
       ''    "performance": "Performance considerations",'', nl,
       ''    "accessibility": "Accessibility improvements",'', nl,
       ''    "security": "Security considerations",'', nl,
       ''    "optimizations": ["List of suggested optimizations"],'', nl,
       ''    "issues": ["List of potential issues"],'', nl,
       ''    "overallScore": 85'', nl,
       ''  }'', nl,
       ''}'']\<close>

definition analysis_fallback :: \<open>string \<Rightarrow> json\<close> where
  \<open>analysis_fallback why =
     JObj [(''analysis'',
            JObj [(''codeQuality'', JStr why), (''performance'', JStr why),
                  (''accessibility'', JStr why), (''security'', JStr why),
                  (''optimizations'', JArr []), (''issues'', JArr []),
                  (''overallScore'', JNum 0)])]\<close>

definition post_analyze_try :: \<open>platform \<Rightarrow> oid \<Rightarrow> code_arg option \<Rightarrow> world \<Rightarrow> response result\<close> where
  \<open>post_analyze_try pf user code_opt w =
     (case code_opt of
        None \<Rightarrow> respond 400 (BError ''Code is required'') w
      | Some code \<Rightarrow>
          if \<not> code_given (Some code) then respond 400 (BError ''Code is required'') w
          else
            and_then (call_api (analyzePrompt code) w) (\<lambda>text w1.
              respond 200
                (BAi (parse_block pf text (analysis_fallback ''Analysis not available'')
                        (analysis_fallback ''Failed to analyze code'')) None) w1))\<close>

definition post_analyze :: \<open>platform \<Rightarrow> oid \<Rightarrow> code_arg option \<Rightarrow> world \<Rightarrow> response \<times> world\<close> where
  \<open>post_analyze pf user code_opt w =
     catch_500_details ''Failed to analyze component'' (post_analyze_try pf user code_opt w)\<close>

section \<open>The routes\<close>

datatype sessions_route =
    ListSessions \<open>nat option\<close> \<open>nat option\<close> \<open>string option\<close>
  | GetSession string
  | CreateSession \<open>string option\<close> \<open>string option\<close> \<open>string list option\<close>
  | UpdateSession string \<open>string option\<close> \<open>string option\<close> \<open>string list option\<close>
  | DeleteSession string
  | AddChatMessage string \<open>string option\<close> \<open>string option\<close> \<open>object option\<close>
  | UpdateCode string string string \<open>string option\<close>
  | UpdateUiState string ui_state_fields
  | GetStats string

datatype ai_route =
    Generate \<open>string option\<close> \<open>string option\<close> \<open>code_arg option\<close> \<open>history_message list option\<close>
  | Refine \<open>string option\<close> \<open>code_arg option\<close> \<open>string option\<close>
  | Variations \<open>code_arg option\<close> \<open>nat option\<close>
  | Analyze \<open>code_arg option\<close>

datatype route = Sessions sessions_route | Ai ai_route

record request =
  authorization :: \<open>string option\<close>
  route :: route

text \<open>
  Modelled from the spec: the middleware \<^verbatim>\<open>auth\<close> of \<^verbatim>\<open>backend/middleware/auth.js\<close>, which
  is not among the sources. The spec speaks of authenticated users; the client sends a bearer
  token and takes status 401 as the answer to a token that is missing or not valid. So the
  middleware finds the user of the token and hands the request on, or answers with status
  401 and does not hand it on. The words of its message are not known.
\<close>

definition auth :: \<open>world \<Rightarrow> request \<Rightarrow> oid option\<close> where
  \<open>auth w req = (case authorization req of None \<Rightarrow> None | Some t \<Rightarrow> tokens w t)\<close>

definition unauthorized :: response where
  \<open>unauthorized = \<lparr>status = 401, body = BError ''Not authorized''\<rparr>\<close>

text \<open>A route that is registered as \<^verbatim>\<open>router.get(path, auth, handler)\<close>.\<close>

definition with_auth :: \<open>(oid \<Rightarrow> world \<Rightarrow> response \<times> world) \<Rightarrow> request \<Rightarrow> world \<Rightarrow> response \<times> world\<close> where
  \<open>with_auth handler req w =
     (case auth w req of
        None \<Rightarrow> (unauthorized, w)
      | Some user \<Rightarrow> handler user w)\<close>

definition sessions_router :: \<open>platform \<Rightarrow> sessions_route \<Rightarrow> request \<Rightarrow> world \<Rightarrow> response \<times> world\<close> where
  \<open>sessions_router pf r =
     (case r of
        ListSessions page limit search \<Rightarrow> with_auth (\<lambda>user. get_sessions pf user page limit search)
      | GetSession sessionId \<Rightarrow> with_auth (\<lambda>user. get_session pf user sessionId)
      | CreateSession t d ts \<Rightarrow> with_auth (\<lambda>user. post_session pf user t d ts)
      | UpdateSession sessionId t d ts \<Rightarrow> with_auth (\<lambda>user. put_session pf user sessionId t d ts)
      | DeleteSession sessionId \<Rightarrow> with_auth (\<lambda>user. delete_session pf user sessionId)
      | AddChatMessage sessionId r c md \<Rightarrow> with_auth (\<lambda>user. post_chat pf user sessionId r c md)
      | UpdateCode sessionId j c t \<Rightarrow> with_auth (\<lambda>user. put_code pf user sessionId j c t)
      | UpdateUiState sessionId u \<Rightarrow> with_auth (\<lambda>user. put_ui_state pf user sessionId u)
      | GetStats sessionId \<Rightarrow> with_auth (\<lambda>user. get_stats pf user sessionId))\<close>

definition ai_router :: \<open>platform \<Rightarrow> ai_route \<Rightarrow> request \<Rightarrow> world \<Rightarrow> response \<times> world\<close> where
  \<open>ai_router pf r =
     (case r of
        Generate p sessionId existingCode h \<Rightarrow> with_auth (\<lambda>user. post_generate pf user p sessionId existingCode h)
      | Refine p currentCode sessionId \<Rightarrow> with_auth (\<lambda>user. post_refine pf user p currentCode sessionId)
      | Variations baseCode n \<Rightarrow> with_auth (\<lambda>user. post_variations pf user baseCode n)
      | Analyze code \<Rightarrow> with_auth (\<lambda>user. post_analyze pf user code))\<close>

definition serve :: \<open>platform \<Rightarrow> request \<Rightarrow> world \<Rightarrow> response \<times> world\<close> where
  \<open>serve pf req w =
     (case route req of
        Sessions r \<Rightarrow> sessions_router pf r req w
      | Ai r \<Rightarrow> ai_router pf r req w)\<close>

section \<open>The preview of the editor\<close>












text \<open>
  What is rendered: the note that there is no component, or the frame with its attributes
  (and, beside it, the button that reloads it).
\<close>

record iframe =
  srcDoc :: string
  className :: string
  frame_title :: string
  sandbox :: string

datatype preview = NoComponent | Frame iframe


section \<open>Try blocks, and what a request names\<close>

text \<open>The \<^verbatim>\<open>try\<close> block of the handler of each route.\<close>

fun sessions_try :: \<open>platform \<Rightarrow> oid \<Rightarrow> sessions_route \<Rightarrow> world \<Rightarrow> response result\<close> where
  \<open>sessions_try pf user (ListSessions page limit search) = get_sessions_try pf user page limit search\<close>
| \<open>sessions_try pf user (GetSession sessionId) = get_session_try pf user sessionId\<close>
| \<open>sessions_try pf user (CreateSession t d ts) = post_session_try pf user t d ts\<close>
| \<open>sessions_try pf user (UpdateSession sessionId t d ts) = put_session_try pf user sessionId t d ts\<close>
| \<open>sessions_try pf user (DeleteSession sessionId) = delete_session_try pf user sessionId\<close>
| \<open>sessions_try pf user (AddChatMessage sessionId r c md) = post_chat_try pf user sessionId r c md\<close>
| \<open>sessions_try pf user (UpdateCode sessionId j c t) = put_code_try pf user sessionId j c t\<close>
| \<open>sessions_try pf user (UpdateUiState sessionId u) = put_ui_state_try pf user sessionId u\<close>
| \<open>sessions_try pf user (GetStats sessionId) = get_stats_try pf user sessionId\<close>

fun ai_try :: \<open>platform \<Rightarrow> oid \<Rightarrow> ai_route \<Rightarrow> world \<Rightarrow> response result\<close> where
  \<open>ai_try pf user (Generate p sessionId existingCode h) = post_generate_try pf user p sessionId existingCode h\<close>
| \<open>ai_try pf user (Refine p currentCode sessionId) = post_refine_try pf user p currentCode sessionId\<close>
| \<open>ai_try pf user (Variations baseCode n) = post_variations_try pf user baseCode n\<close>
| \<open>ai_try pf user (Analyze code) = post_analyze_try pf user code\<close>

fun try_block :: \<open>platform \<Rightarrow> oid \<Rightarrow> route \<Rightarrow> world \<Rightarrow> response result\<close> where
  \<open>try_block pf user (Sessions r) = sessions_try pf user r\<close>
| \<open>try_block pf user (Ai r) = ai_try pf user r\<close>

text \<open>A body with the field \<^verbatim>\<open>error\<close>.\<close>

fun is_error_body :: \<open>body \<Rightarrow> bool\<close> where
  \<open>is_error_body (BError _) = True\<close>
| \<open>is_error_body (BErrorDetails _ _) = True\<close>
| \<open>is_error_body _ = False\<close>

text \<open>The session that the URL of a request names, for the seven routes under \<^verbatim>\<open>/:sessionId\<close>.\<close>

fun names_session :: \<open>sessions_route \<Rightarrow> string option\<close> where
  \<open>names_session (ListSessions _ _ _) = None\<close>
| \<open>names_session (GetSession sessionId) = Some sessionId\<close>
| \<open>names_session (CreateSession _ _ _) = None\<close>
| \<open>names_session (UpdateSession sessionId _ _ _) = Some sessionId\<close>
| \<open>names_session (DeleteSession sessionId) = Some sessionId\<close>
| \<open>names_session (AddChatMessage sessionId _ _ _) = Some sessionId\<close>
| \<open>names_session (UpdateCode sessionId _ _ _) = Some sessionId\<close>
| \<open>names_session (UpdateUiState sessionId _) = Some sessionId\<close>
| \<open>names_session (GetStats sessionId) = Some sessionId\<close>

text \<open>
  Whether the body of a request lets its handler send the query for the session: the chat
  route first asks for a role and a content, and the update of the metadata validates the
  title and the description before the query is sent.
\<close>

fun reaches_query :: \<open>sessions_route \<Rightarrow> bool\<close> where
  \<open>reaches_query (AddChatMessage _ r c _) = (r \<noteq> None \<and> r \<noteq> Some [] \<and> c \<noteq> None \<and> c \<noteq> Some [])\<close>
| \<open>reaches_query (UpdateSession _ t d _) =
     valid_update \<lparr>u_title = t, u_description = d, u_tags = None, u_lastAccessed = None, u_isActive = None\<rparr>\<close>
| \<open>reaches_query _ = True\<close>

text \<open>The user that a query of the collection filters on, if the call is a query.\<close>

fun filters_on :: \<open>effect \<Rightarrow> oid option\<close> where
  \<open>filters_on (DbFind q) = Some (q_userId q)\<close>
| \<open>filters_on (DbCountDocuments q) = Some (q_userId q)\<close>
| \<open>filters_on (DbFindOne f) = Some (f_userId f)\<close>
| \<open>filters_on (DbFindOneAndUpdate f) = Some (f_userId f)\<close>
| \<open>filters_on _ = None\<close>

text \<open>
  The three routes that change the session data with a method of the schema, which saves
  the document.
\<close>

fun saves_session_data :: \<open>sessions_route \<Rightarrow> bool\<close> where
  \<open>saves_session_data (AddChatMessage _ _ _ _) = True\<close>
| \<open>saves_session_data (UpdateCode _ _ _ _) = True\<close>
| \<open>saves_session_data (UpdateUiState _ _) = True\<close>
| \<open>saves_session_data _ = False\<close>

text \<open>The number of calls against the collection that a route makes at most.\<close>

fun db_calls_bound :: \<open>sessions_route \<Rightarrow> nat\<close> where
  \<open>db_calls_bound (ListSessions _ _ _) = 2\<close>
| \<open>db_calls_bound (AddChatMessage _ _ _ _) = 2\<close>
| \<open>db_calls_bound (UpdateCode _ _ _ _) = 2\<close>
| \<open>db_calls_bound (UpdateUiState _ _) = 2\<close>
| \<open>db_calls_bound _ = 1\<close>

text \<open>
  The words of the specification for the match of the parse blocks: the text from its first
  \<^verbatim>\<open>{\<close> through its last \<^verbatim>\<open>}\<close>, if there is one after that \<^verbatim>\<open>{\<close>.
\<close>

definition first_to_last_brace :: \<open>string \<Rightarrow> string option\<close> where
  \<open>first_to_last_brace text =
     (case dropWhile (\<lambda>c. c \<noteq> CHR ''{'') text of
        [] \<Rightarrow> None
      | _ # rest \<Rightarrow>
          (case rev (dropWhile (\<lambda>c. c \<noteq> CHR ''}'') (rev rest)) of
             [] \<Rightarrow> None
           | upto_close \<Rightarrow> Some (CHR ''{'' # upto_close)))\<close>

text \<open>
  What is known of \<^verbatim>\<open>JSON.parse\<close> and used: a text that starts with a brace is parsed to
  an object, if it is parsed at all.
\<close>

definition parses_objects :: \<open>platform \<Rightarrow> bool\<close> where
  \<open>parses_objects pf = (\<forall>m v. JSON_parse pf (CHR ''{'' # m) = Some v \<longrightarrow> (\<exists>fields. v = JObj fields))\<close>




text \<open>
  What a computation ensures: a property of its result, thrown or returned, and of the world
  it leaves.
\<close>

definition ensures :: \<open>'a result \<Rightarrow> (exn + 'a \<Rightarrow> world \<Rightarrow> bool) \<Rightarrow> bool\<close> where
  \<open>ensures m Q = (case m of (r, w) \<Rightarrow> Q r w)\<close>

section \<open>Examples\<close>

text \<open>
  A platform whose JSON parser knows the empty object only, which casts two names to
  ObjectIds, and in which a spread copies no path of the schema out of a subdocument; a
  session of user 10; and a world with that session, an empty cache and the
  tokens of the users 10 and 20, in which the API answers every prompt with a text in braces
  that is not JSON.
\<close>

definition example_platform :: platform where
  \<open>example_platform =
     \<lparr>JSON_parse = (\<lambda>s. if s = ''{}'' then Some (JObj []) else None),
      castObjectId = (\<lambda>s. if s = ''s1'' then Some 1 else if s = ''s2'' then Some 2 else None),
      RegExp_i = (\<lambda>p. Some (\<lambda>s. str_includes s p)),
      own_properties = (\<lambda>u. no_fields)\<rparr>\<close>

definition example_session :: session where
  \<open>example_session =
     \<lparr>doc_id = 1, userId = 10, title = ''Card'', description = [],
      chatHistory = Some [], componentCode = Some (default_component_code 1000),
      uiState = Some default_ui_state, isActive = True, lastAccessed = 1000, tags = [],
      metadata = [], createdAt = 1000, updatedAt = 1000\<rparr>\<close>

definition example_world :: world where
  \<open>example_world =
     \<lparr>db = [(1, example_session)], redis = Map.empty, redisClient = True, clock = 5000,
      next_oid = 2, gemini = (\<lambda>_. Text ''{not json}''),
      tokens = (\<lambda>t. if t = ''alice'' then Some 10 else if t = ''bob'' then Some 20 else None),
      faults = [], trace = []\<rparr>\<close>

definition as_user :: \<open>string \<Rightarrow> route \<Rightarrow> request\<close> where
  \<open>as_user token r = \<lparr>authorization = Some token, route = r\<rparr>\<close>




text \<open>The example world when the third call fails, and when the API answers with an object.\<close>

definition example_failing_world :: world where
  \<open>example_failing_world = example_world\<lparr>faults := [None, None, Some ''redis is down'']\<rparr>\<close>

definition example_json_world :: world where
  \<open>example_json_world = example_world\<lparr>gemini := (\<lambda>_. Text ''Here it is: {} (done)'')\<rparr>\<close>

text \<open>The world after the owner has read the example session, which has filled the cache.\<close>

definition example_cached_world :: world where
  \<open>example_cached_world =
     snd (serve example_platform (as_user ''alice'' (Sessions (GetSession ''s1''))) example_world)\<close>

section \<open>What the calls ensure\<close>

lemma performed_simps [simp]:
  \<open>trace (performed e w) = trace w @ [e]\<close>
  \<open>faults (performed e w) = tl (faults w)\<close>
  \<open>db (performed e w) = db w\<close>
  \<open>redis (performed e w) = redis w\<close>
  \<open>redisClient (performed e w) = redisClient w\<close>
  \<open>clock (performed e w) = clock w\<close>
  \<open>next_oid (performed e w) = next_oid w\<close>
  \<open>gemini (performed e w) = gemini w\<close>
  \<open>tokens (performed e w) = tokens w\<close>
  by (simp_all add: performed_def)

lemma next_fault_update [simp]:
  \<open>next_fault (w\<lparr>db := d\<rparr>) = next_fault w\<close>
  \<open>next_fault (w\<lparr>redis := r\<rparr>) = next_fault w\<close>
  \<open>next_fault (w\<lparr>next_oid := n\<rparr>) = next_fault w\<close>
  by (simp_all add: next_fault_def)

lemma no_faults_next:
  \<open>no_faults n w \<Longrightarrow> 0 < n \<Longrightarrow> next_fault w = None\<close>
  \<open>no_faults n w \<Longrightarrow> no_faults (n - 1) (performed e w)\<close>
proof -
  show \<open>no_faults n w \<Longrightarrow> 0 < n \<Longrightarrow> next_fault w = None\<close>
    by (cases \<open>faults w\<close>; cases n) (simp_all add: no_faults_def next_fault_def)
  show \<open>no_faults n w \<Longrightarrow> no_faults (n - 1) (performed e w)\<close>
    by (cases \<open>faults w\<close>; cases n) (simp_all add: no_faults_def)
qed

lemma no_faults_update [simp]:
  \<open>no_faults n (w\<lparr>db := d\<rparr>) = no_faults n w\<close>
  \<open>no_faults n (w\<lparr>redis := r\<rparr>) = no_faults n w\<close>
  \<open>no_faults n (w\<lparr>next_oid := k\<rparr>) = no_faults n w\<close>
  by (simp_all add: no_faults_def)

lemma matching_frame [simp]:
  \<open>matching pf f (performed e w) = matching pf f w\<close>
  \<open>matching pf f (w\<lparr>redis := r\<rparr>) = matching pf f w\<close>
  by (simp_all add: matching_def cong: option.case_cong)

lemma ensures_pair [simp]: \<open>ensures (r, w) Q = Q r w\<close>
  by (simp add: ensures_def)

lemma ensures_and_then [simp]:
  \<open>ensures (and_then m f) Q =
     ensures m (\<lambda>r w. case r of Inl e \<Rightarrow> Q (Inl e) w | Inr x \<Rightarrow> ensures (f x w) Q)\<close>
  by (simp add: ensures_def and_then_def split: prod.split sum.split)

lemma ensures_call [simp]:
  \<open>ensures (call e w) Q =
     (case next_fault w of
        Some m \<Rightarrow> Q (Inl (Error m)) (performed e w)
      | None \<Rightarrow> Q (Inr ()) (performed e w))\<close>
  by (simp add: call_def split: option.split)

lemma ensures_respond [simp]: \<open>ensures (respond st b w) Q = Q (Inr \<lparr>status = st, body = b\<rparr>) w\<close>
  by (simp add: respond_def)

lemma ensures_findOne:
  \<open>ensures (Session_findOne pf f w) Q =
     (case castObjectId pf (f_id f) of
        None \<Rightarrow> Q (Inl CastError) w
      | Some _ \<Rightarrow>
          (case next_fault w of
             Some m \<Rightarrow> Q (Inl (Error m)) (performed (DbFindOne f) w)
           | None \<Rightarrow>
               Q (Inr (map_option (hydrate (clock w) \<circ> snd) (matching pf f w))) (performed (DbFindOne f) w)))\<close>
  by (simp add: Session_findOne_def split: option.split)

lemma ensures_findOneAndUpdate:
  \<open>ensures (Session_findOneAndUpdate pf f u rv w) Q =
     (case castObjectId pf (f_id f) of
        None \<Rightarrow> Q (Inl CastError) w
      | Some _ \<Rightarrow>
          if rv \<and> \<not> valid_update u then Q (Inl ValidationError) w
          else
            (case next_fault w of
               Some m \<Rightarrow> Q (Inl (Error m)) (performed (DbFindOneAndUpdate f) w)
             | None \<Rightarrow>
                 (case matching pf f w of
                    None \<Rightarrow> Q (Inr None) (performed (DbFindOneAndUpdate f) w)
                  | Some (i, s) \<Rightarrow>
                      Q (Inr (Some (hydrate (clock w) ((apply_update u s)\<lparr>updatedAt := clock w\<rparr>))))
                        ((performed (DbFindOneAndUpdate f) w)
                           \<lparr>db := AList.update i ((apply_update u s)\<lparr>updatedAt := clock w\<rparr>) (db w)\<rparr>))))\<close>
  by (auto simp: Session_findOneAndUpdate_def Let_def split: option.split prod.split)

lemma ensures_find:
  \<open>ensures (Session_find pf q skip limit w) Q =
     (case next_fault w of
        Some m \<Rightarrow> Q (Inl (Error m)) (performed (DbFind q) w)
      | None \<Rightarrow>
          if skip < 0 then Q (Inl MongoServerError) (performed (DbFind q) w)
          else Q (Inr (found_page pf q skip limit (map snd (db w)))) (performed (DbFind q) w))\<close>
  by (simp add: Session_find_def split: option.split)

lemma ensures_countDocuments:
  \<open>ensures (Session_countDocuments pf q w) Q =
     (case next_fault w of
        Some m \<Rightarrow> Q (Inl (Error m)) (performed (DbCountDocuments q) w)
      | None \<Rightarrow>
          Q (Inr (length (filter (matches_query pf q) (map snd (db w))))) (performed (DbCountDocuments q) w))\<close>
  by (simp add: Session_countDocuments_def split: option.split)

lemma ensures_save:
  \<open>ensures (Session_save isNew s w) Q =
     (if \<not> valid_session s then Q (Inl ValidationError) w
      else
        (let s' = s\<lparr>lastAccessed := clock w,
                    createdAt := (if isNew then clock w else createdAt s),
                    updatedAt := clock w\<rparr>
         in case next_fault w of
              Some m \<Rightarrow> Q (Inl (Error m)) (performed (DbSave s') w)
            | None \<Rightarrow> Q (Inr s') ((performed (DbSave s') w)\<lparr>db := AList.update (doc_id s) s' (db w)\<rparr>)))\<close>
  by (simp add: Session_save_def Let_def split: option.split)

lemma ensures_addChatMessage:
  \<open>ensures (addChatMessage s r c md w) Q =
     (case chatHistory s of
        None \<Rightarrow> Q (Inl TypeError) w
      | Some ms \<Rightarrow>
          ensures (Session_save False
            (s\<lparr>chatHistory :=
                 Some (ms @ [\<lparr>role = r, content = c, timestamp = clock w,
                              msg_metadata = (case md of None \<Rightarrow> [] | Some m \<Rightarrow> m)\<rparr>])\<rparr>) w) Q)\<close>
  by (simp add: addChatMessage_def split: option.split)

lemma ensures_updateComponentCode:
  \<open>ensures (updateComponentCode s j c t w) Q =
     (case componentCode s of
        None \<Rightarrow> Q (Inl TypeError) w
      | Some cc \<Rightarrow>
          ensures (Session_save False
            (s\<lparr>componentCode :=
                 Some (cc\<lparr>jsx := j, css := c, tsx := (case t of None \<Rightarrow> [] | Some x \<Rightarrow> x),
                          version := version cc + 1, lastModified := clock w\<rparr>)\<rparr>) w) Q)\<close>
  by (simp add: updateComponentCode_def split: option.split)

lemma ensures_updateUIState:
  \<open>ensures (updateUIState pf s u w) Q =
     ensures (Session_save False
       (s\<lparr>uiState :=
            Some (cast_ui_state
                    (spread_fields (case uiState s of None \<Rightarrow> no_fields | Some x \<Rightarrow> own_properties pf x) u))\<rparr>) w) Q\<close>
  by (simp add: updateUIState_def)

lemma ensures_setEx:
  \<open>ensures (setEx key ttl v w) Q =
     (case next_fault w of
        Some m \<Rightarrow> Q (Inl (Error m)) (performed (RedisSetEx key ttl v) w)
      | None \<Rightarrow>
          Q (Inr ()) ((performed (RedisSetEx key ttl v) w)
                        \<lparr>redis := (redis w)(key \<mapsto> (clock w + ttl * 1000, v))\<rparr>))\<close>
  by (simp add: setEx_def split: option.split)

lemma ensures_setSessionData:
  \<open>ensures (setSessionData sessionId data ttl w) Q =
     (if \<not> redisClient w then Q (Inl (Error ''Redis client not initialized'')) w
      else ensures (setEx (''session:'' @ sessionId) (case ttl of None \<Rightarrow> 3600 | Some t \<Rightarrow> t) data w) Q)\<close>
  by (simp add: setSessionData_def getRedisClient_def)

lemma ensures_setCache:
  \<open>ensures (setCache key data ttl w) Q =
     (if \<not> redisClient w then Q (Inl (Error ''Redis client not initialized'')) w
      else ensures (setEx key (case ttl of None \<Rightarrow> 300 | Some t \<Rightarrow> t) data w) Q)\<close>
  by (simp add: setCache_def getRedisClient_def)

lemma live_value_performed [simp]: \<open>live_value (performed e w) key = live_value w key\<close>
  by (simp add: live_value_def cong: option.case_cong)

lemma ensures_getCache:
  \<open>ensures (getCache key w) Q =
     (if \<not> redisClient w then Q (Inl (Error ''Redis client not initialized'')) w
      else
        (case next_fault w of
           Some m \<Rightarrow> Q (Inl (Error m)) (performed (RedisGet key) w)
         | None \<Rightarrow>
             Q (Inr (case live_value w key of None \<Rightarrow> JNull | Some v \<Rightarrow> v)) (performed (RedisGet key) w)))\<close>
  by (simp add: getCache_def getRedisClient_def redis_get_def split: option.split)

lemma ensures_call_api:
  \<open>ensures (call_api p w) Q =
     (case next_fault w of
        Some m \<Rightarrow> Q (Inl (Error m)) (performed (Fetch p) w)
      | None \<Rightarrow> Q (api_result (gemini w p)) (performed (Fetch p) w))\<close>
  by (simp add: call_api_def split: option.split)

lemmas ensures_calls =
  ensures_findOne ensures_findOneAndUpdate ensures_find ensures_countDocuments ensures_save
  ensures_addChatMessage ensures_updateComponentCode ensures_updateUIState ensures_setEx
  ensures_setSessionData ensures_setCache ensures_getCache ensures_call_api

text \<open>What a handler ensures follows from what its \<^verbatim>\<open>try\<close> block ensures.\<close>

lemma catch_500_ensures:
  \<open>ensures m (\<lambda>r w'. Q (case r of Inl e \<Rightarrow> \<lparr>status = 500, body = BError msg\<rparr> | Inr res \<Rightarrow> res) w')
     \<Longrightarrow> Q (fst (catch_500 msg m)) (snd (catch_500 msg m))\<close>
  by (simp add: ensures_def catch_500_def split: prod.splits sum.splits)

lemma catch_500_details_ensures:
  \<open>ensures m
      (\<lambda>r w'. Q (case r of Inl e \<Rightarrow> \<lparr>status = 500, body = BErrorDetails msg (message e)\<rparr> | Inr res \<Rightarrow> res) w')
     \<Longrightarrow> Q (fst (catch_500_details msg m)) (snd (catch_500_details msg m))\<close>
  by (simp add: ensures_def catch_500_details_def split: prod.splits sum.splits)

lemma ensuresD: \<open>ensures m Q \<Longrightarrow> Q (fst m) (snd m)\<close>
  by (simp add: ensures_def split_beta)

lemma catch_500_simps [simp]:
  \<open>snd (catch_500 msg m) = snd m\<close>
  \<open>fst (catch_500 msg m) = (case fst m of Inl e \<Rightarrow> \<lparr>status = 500, body = BError msg\<rparr> | Inr res \<Rightarrow> res)\<close>
  \<open>snd (catch_500_details msg m) = snd m\<close>
  \<open>fst (catch_500_details msg m) =
     (case fst m of Inl e \<Rightarrow> \<lparr>status = 500, body = BErrorDetails msg (message e)\<rparr> | Inr res \<Rightarrow> res)\<close>
  by (simp_all add: catch_500_def catch_500_details_def split: prod.split sum.split)

lemmas sessions_try_defs =
  get_sessions_try_def get_session_try_def post_session_try_def put_session_try_def
  delete_session_try_def post_chat_try_def put_code_try_def put_ui_state_try_def get_stats_try_def

lemmas ai_try_defs =
  post_generate_try_def post_refine_try_def post_variations_try_def post_analyze_try_def

lemmas handler_defs =
  get_sessions_def get_session_def post_session_def put_session_def delete_session_def
  post_chat_def put_code_def put_ui_state_def get_stats_def
  post_generate_def post_refine_def post_variations_def post_analyze_def

text \<open>With a user, a request is answered by the handler of its route.\<close>

lemma with_auth_user: \<open>auth w req = Some user \<Longrightarrow> with_auth handler req w = handler user w\<close>
  by (simp add: with_auth_def)

lemma owned_simps [simp]:
  \<open>f_id (owned sessionId user) = sessionId\<close>
  \<open>f_userId (owned sessionId user) = user\<close>
  \<open>f_isActive (owned sessionId user) = True\<close>
  by (simp_all add: owned_def)

lemma effects_simps [simp]:
  \<open>effects w w = []\<close>
  \<open>trace w' = trace w @ es \<Longrightarrow> effects w w' = es\<close>
  by (simp_all add: effects_def)

section \<open>The calls against the collection\<close>

lemma sessions_try_db_calls:
  \<open>ensures (sessions_try pf user r w) (\<lambda>_ w'. length (filter is_db (effects w w')) \<le> db_calls_bound r)\<close>
  by (cases r) (simp_all add: sessions_try_defs ensures_calls Let_def split: option.split)

lemma serve_sessions:
  \<open>auth w req = Some user \<Longrightarrow> route req = Sessions r \<Longrightarrow>
     \<exists>msg. serve pf req w = catch_500 msg (sessions_try pf user r w)\<close>
  by (cases r) (auto simp: serve_def sessions_router_def with_auth_def handler_defs)

lemma serve_ai:
  \<open>auth w req = Some user \<Longrightarrow> route req = Ai r \<Longrightarrow>
     \<exists>msg. serve pf req w = catch_500_details msg (ai_try pf user r w)\<close>
  by (cases r) (auto simp: serve_def ai_router_def with_auth_def handler_defs)

lemma serve_unauthorized: \<open>auth w req = None \<Longrightarrow> serve pf req w = (unauthorized, w)\<close>
  by (simp add: serve_def sessions_router_def ai_router_def with_auth_def
      split: route.split sessions_route.split ai_route.split)

text \<open>What no request changes.\<close>

lemma sessions_try_frame:
  \<open>ensures (sessions_try pf user r w)
     (\<lambda>_ w'. tokens w' = tokens w \<and> clock w' = clock w \<and> redisClient w' = redisClient w \<and>
              gemini w' = gemini w \<and> (faults w = [] \<longrightarrow> faults w' = []))\<close>
  by (cases r) (simp_all add: sessions_try_defs ensures_calls Let_def split: option.split)

lemma ai_try_frame:
  \<open>ensures (ai_try pf user r w)
     (\<lambda>_ w'. tokens w' = tokens w \<and> clock w' = clock w \<and> redisClient w' = redisClient w \<and>
              gemini w' = gemini w \<and> db w' = db w \<and> (faults w = [] \<longrightarrow> faults w' = []))\<close>
  by (cases r) (simp_all add: ai_try_defs ensures_calls Let_def split: option.split sum.split)

lemma serve_frame:
  \<open>tokens (snd (serve pf req w)) = tokens w \<and> clock (snd (serve pf req w)) = clock w \<and>
    redisClient (snd (serve pf req w)) = redisClient w \<and> gemini (snd (serve pf req w)) = gemini w \<and>
    (faults w = [] \<longrightarrow> faults (snd (serve pf req w)) = [])\<close>
proof (cases \<open>auth w req\<close>)
  case None
  then show ?thesis
    by (simp add: serve_unauthorized)
next
  case (Some user)
  show ?thesis
  proof (cases \<open>route req\<close>)
    case (Sessions r)
    with Some obtain msg where \<open>serve pf req w = catch_500 msg (sessions_try pf user r w)\<close>
      using serve_sessions by blast
    then show ?thesis
      using ensuresD [OF sessions_try_frame [of pf user r w]] by simp
  next
    case (Ai r)
    with Some obtain msg where \<open>serve pf req w = catch_500_details msg (ai_try pf user r w)\<close>
      using serve_ai by blast
    then show ?thesis
      using ensuresD [OF ai_try_frame [of pf user r w]] by simp
  qed
qed

lemma auth_after_serve [simp]: \<open>auth (snd (serve pf req w)) req2 = auth w req2\<close>
  using serve_frame [of pf req w] by (simp add: auth_def split: option.split)

text \<open>
  C4, as amended: a request to the sessions router makes at most two calls against the Session
  collection before it is answered, and at most one on the routes that read, create, update,
  delete a session or give its statistics.
\<close>

theorem sessions_routes_db_calls:
  \<open>route req = Sessions r \<Longrightarrow>
     length (filter is_db (effects w (snd (serve pf req w)))) \<le> db_calls_bound r\<close>
proof (cases \<open>auth w req\<close>)
  case None
  then show ?thesis
    by (simp add: serve_unauthorized)
next
  case (Some user)
  assume \<open>route req = Sessions r\<close>
  with Some obtain msg where \<open>serve pf req w = catch_500 msg (sessions_try pf user r w)\<close>
    using serve_sessions by blast
  then show ?thesis
    using ensuresD [OF sessions_try_db_calls [of pf user r w]] by simp
qed

theorem sessions_routes_db_calls_witness:
  \<open>route (as_user ''alice'' (Sessions (AddChatMessage ''s1'' (Some ''user'') (Some ''hi'') None)))
      = Sessions (AddChatMessage ''s1'' (Some ''user'') (Some ''hi'') None) \<and>
    length (filter is_db (effects example_world (snd (serve example_platform
      (as_user ''alice'' (Sessions (AddChatMessage ''s1'' (Some ''user'') (Some ''hi'') None))) example_world))))
      \<le> 2\<close>
  using sessions_routes_db_calls
    [of \<open>as_user ''alice'' (Sessions (AddChatMessage ''s1'' (Some ''user'') (Some ''hi'') None))\<close>
        \<open>AddChatMessage ''s1'' (Some ''user'') (Some ''hi'') None\<close> example_world example_platform]
  by (simp add: as_user_def)

text \<open>
  The claim as stated fails: the list of the sessions of a user is answered after two calls
  against the collection, \<^verbatim>\<open>find\<close> and \<^verbatim>\<open>countDocuments\<close>.
\<close>

theorem list_makes_two_db_calls:
  \<open>effects example_world
      (snd (serve example_platform (as_user ''alice'' (Sessions (ListSessions None None None))) example_world))
    = [DbFind \<lparr>q_userId = 10, q_isActive = True, q_search = None\<rparr>,
       DbCountDocuments \<lparr>q_userId = 10, q_isActive = True, q_search = None\<rparr>]\<close>
  by (simp add: serve_def as_user_def sessions_router_def with_auth_def auth_def example_world_def
      get_sessions_def get_sessions_try_def Session_find_def Session_countDocuments_def
      and_then_def call_def next_fault_def performed_def respond_def effects_def Let_def)

section \<open>Authentication\<close>

text \<open>
  C7: every route of the two routers is registered behind the middleware \<^verbatim>\<open>auth\<close>, so a
  request without a user that the middleware accepts is answered with status 401 and its
  handler does not run: the world stays as it is, and no call is made.
\<close>

theorem auth_guards_every_route:
  \<open>auth w req = None \<Longrightarrow> serve pf req w = (unauthorized, w)\<close>
  by (simp add: serve_def sessions_router_def ai_router_def with_auth_def
      split: route.split sessions_route.split ai_route.split)

theorem auth_guards_every_route_witness:
  \<open>auth example_world \<lparr>authorization = Some ''mallory'', route = Ai (Generate (Some ''a card'') None None None)\<rparr> = None \<and>
    serve example_platform \<lparr>authorization = Some ''mallory'', route = Ai (Generate (Some ''a card'') None None None)\<rparr>
      example_world = (unauthorized, example_world)\<close>
  using auth_guards_every_route
    [of example_world \<open>\<lparr>authorization = Some ''mallory'', route = Ai (Generate (Some ''a card'') None None None)\<rparr>\<close>
        example_platform]
  by (simp add: auth_def example_world_def)

section \<open>The time to live of the cache\<close>

lemma sessions_try_cache_writes:
  \<open>ensures (sessions_try pf user r w)
     (\<lambda>_ w'. (\<forall>k t v. RedisSetEx k t v \<in> set (effects w w') \<longrightarrow> t = 3600) \<and>
              (\<forall>k. redis w' k = redis w k \<or> (\<exists>v. redis w' k = Some (clock w + 3600 * 1000, v))))\<close>
  by (cases r) (simp_all add: sessions_try_defs ensures_calls Let_def split: option.split)

lemma ai_try_cache_writes:
  \<open>ensures (ai_try pf user r w)
     (\<lambda>_ w'. (\<forall>k t v. RedisSetEx k t v \<in> set (effects w w') \<longrightarrow> t = 3600) \<and>
              (\<forall>k. redis w' k = redis w k \<or> (\<exists>v. redis w' k = Some (clock w + 3600 * 1000, v))))\<close>
  by (cases r) (simp_all add: ai_try_defs ensures_calls Let_def split: option.split sum.split)

text \<open>
  C6: the cache is written with \<^verbatim>\<open>setEx\<close> only. Every write of a request has a time to
  live of 3600 seconds, so every key that a request writes expires 3600 seconds later; and
  the defaults of \<^verbatim>\<open>setSessionData\<close> and \<^verbatim>\<open>setCache\<close> are 3600 and 300 seconds.
\<close>

theorem cache_writes_expire:
  \<open>(\<forall>k t v. RedisSetEx k t v \<in> set (effects w (snd (serve pf req w))) \<longrightarrow> t = 3600) \<and>
    (\<forall>k. redis (snd (serve pf req w)) k = redis w k \<or>
         (\<exists>v. redis (snd (serve pf req w)) k = Some (clock w + 3600 * 1000, v))) \<and>
    (redisClient w \<longrightarrow>
       effects w (snd (setSessionData sessionId data None w)) = [RedisSetEx (''session:'' @ sessionId) 3600 data]) \<and>
    (redisClient w \<longrightarrow> effects w (snd (setCache key data None w)) = [RedisSetEx key 300 data])\<close>
proof -
  have defaults:
    \<open>redisClient w \<longrightarrow>
       effects w (snd (setSessionData sessionId data None w)) = [RedisSetEx (''session:'' @ sessionId) 3600 data]\<close>
    \<open>redisClient w \<longrightarrow> effects w (snd (setCache key data None w)) = [RedisSetEx key 300 data]\<close>
    by (simp_all add: setSessionData_def setCache_def getRedisClient_def setEx_def and_then_def call_def
        split: option.split)
  have requests:
    \<open>(\<forall>k t v. RedisSetEx k t v \<in> set (effects w (snd (serve pf req w))) \<longrightarrow> t = 3600) \<and>
     (\<forall>k. redis (snd (serve pf req w)) k = redis w k \<or>
          (\<exists>v. redis (snd (serve pf req w)) k = Some (clock w + 3600 * 1000, v)))\<close>
  proof (cases \<open>auth w req\<close>)
    case None
    then show ?thesis
      by (simp add: serve_unauthorized)
  next
    case (Some user)
    show ?thesis
    proof (cases \<open>route req\<close>)
      case (Sessions r)
      with Some obtain msg where \<open>serve pf req w = catch_500 msg (sessions_try pf user r w)\<close>
        using serve_sessions by blast
      then show ?thesis
        using ensuresD [OF sessions_try_cache_writes [of pf user r w]] by simp
    next
      case (Ai r)
      with Some obtain msg where \<open>serve pf req w = catch_500_details msg (ai_try pf user r w)\<close>
        using serve_ai by blast
      then show ?thesis
        using ensuresD [OF ai_try_cache_writes [of pf user r w]] by simp
    qed
  qed
  from requests defaults show ?thesis
    by blast
qed

theorem cache_writes_expire_witness:
  \<open>RedisSetEx ''session:s1'' 3600 (session_data_or_defaults example_session)
     \<in> set (effects example_world (snd (serve example_platform (as_user ''alice'' (Sessions (GetSession ''s1''))) example_world))) \<and>
    redis (snd (serve example_platform (as_user ''alice'' (Sessions (GetSession ''s1''))) example_world)) ''session:s1''
      = Some (clock example_world + 3600 * 1000, session_data_or_defaults example_session) \<and>
    redisClient example_world \<and>
    effects example_world (snd (setCache ''key'' JNull None example_world)) = [RedisSetEx ''key'' 300 JNull]\<close>
proof -
  have run:
    \<open>effects example_world (snd (serve example_platform (as_user ''alice'' (Sessions (GetSession ''s1''))) example_world))
       = [DbFindOne (owned ''s1'' 10),
          RedisSetEx ''session:s1'' 3600 (session_data_or_defaults example_session)]\<close>
    \<open>redis (snd (serve example_platform (as_user ''alice'' (Sessions (GetSession ''s1''))) example_world)) ''session:s1''
       = Some (3605000, session_data_or_defaults example_session)\<close>
    \<open>redisClient example_world\<close>
    \<open>clock example_world = 5000\<close>
    by (simp_all add: serve_def as_user_def sessions_router_def with_auth_def auth_def example_world_def
        example_platform_def example_session_def
        get_session_def get_session_try_def Session_findOne_def matching_def owned_def hydrate_def
        setSessionData_def getRedisClient_def setEx_def
        and_then_def call_def next_fault_def performed_def respond_def effects_def)
  with cache_writes_expire
    [of example_world example_platform \<open>as_user ''alice'' (Sessions (GetSession ''s1''))\<close> \<open>''s1''\<close> JNull \<open>''key''\<close>]
  show ?thesis
    by simp
qed

section \<open>Sessions of other users, and sessions that were deleted\<close>

lemma sessions_try_filters:
  \<open>ensures (sessions_try pf user r w)
     (\<lambda>_ w'. \<forall>e \<in> set (effects w w'). filters_on e = None \<or> filters_on e = Some user)\<close>
  by (cases r) (simp_all add: sessions_try_defs ensures_calls Let_def split: option.split)

text \<open>
  A request that names a session which its filter does not select leaves the store and the
  cache as they are, and is answered with status 404, unless it is refused before the query
  (status 400) or throws (status 500).
\<close>

lemma sessions_try_not_selected:
  assumes \<open>names_session r = Some sessionId\<close> and \<open>matching pf (owned sessionId user) w = None\<close>
  shows \<open>ensures (sessions_try pf user r w)
     (\<lambda>res w'. db w' = db w \<and> redis w' = redis w \<and>
        (case res of Inl e \<Rightarrow> True | Inr answer \<Rightarrow> status answer \<in> {400, 404} \<and> is_error_body (body answer)) \<and>
        (reaches_query r \<and> next_fault w = None \<and> castObjectId pf sessionId \<noteq> None \<longrightarrow>
           res = Inr \<lparr>status = 404, body = BError ''Session not found''\<rparr>))\<close>
  using assms
  by (cases r)
     (auto simp: sessions_try_defs ensures_calls valid_update_def split: option.split)

lemma not_selected_answer:
  assumes \<open>auth w req = Some user\<close> and \<open>route req = Sessions r\<close>
    and \<open>names_session r = Some sessionId\<close> and \<open>matching pf (owned sessionId user) w = None\<close>
  shows \<open>db (snd (serve pf req w)) = db w \<and> redis (snd (serve pf req w)) = redis w \<and>
         status (fst (serve pf req w)) \<in> {400, 404, 500} \<and>
         is_error_body (body (fst (serve pf req w))) \<and>
         (reaches_query r \<and> next_fault w = None \<and> castObjectId pf sessionId \<noteq> None \<longrightarrow>
            fst (serve pf req w) = \<lparr>status = 404, body = BError ''Session not found''\<rparr>)\<close>
proof -
  from assms(1,2) obtain msg where \<open>serve pf req w = catch_500 msg (sessions_try pf user r w)\<close>
    using serve_sessions by blast
  then show ?thesis
    using ensuresD [OF sessions_try_not_selected [OF assms(3,4)]]
    by (auto split: sum.splits)
qed

text \<open>
  What such a request is answered with: with 404 when its body lets it reach the query and
  the query does not fail, with what the query throws when it fails, and otherwise with 400
  from the chat route and with a validation error from the update of the metadata.
\<close>

lemma sessions_try_not_selected_answer:
  assumes \<open>names_session r = Some sessionId\<close> and \<open>matching pf (owned sessionId user) w = None\<close>
    and \<open>castObjectId pf sessionId \<noteq> None\<close>
  shows \<open>ensures (sessions_try pf user r w)
     (\<lambda>res w'.
        (reaches_query r \<and> next_fault w = None \<longrightarrow>
           res = Inr \<lparr>status = 404, body = BError ''Session not found''\<rparr>) \<and>
        (reaches_query r \<and> next_fault w \<noteq> None \<longrightarrow> (\<exists>e. res = Inl e)) \<and>
        (\<not> reaches_query r \<longrightarrow>
           (case r of
              AddChatMessage _ _ _ _ \<Rightarrow> res = Inr \<lparr>status = 400, body = BError ''Role and content are required''\<rparr>
            | _ \<Rightarrow> res = Inl ValidationError)))\<close>
  using assms
  by (cases r)
     (auto simp: sessions_try_defs ensures_calls valid_update_def split: option.split)

lemma not_selected_status:
  assumes \<open>auth w req = Some user\<close> and \<open>route req = Sessions r\<close>
    and \<open>names_session r = Some sessionId\<close> and \<open>matching pf (owned sessionId user) w = None\<close>
    and \<open>castObjectId pf sessionId \<noteq> None\<close>
  shows \<open>(reaches_query r \<and> next_fault w \<noteq> None \<longrightarrow> status (fst (serve pf req w)) = 500) \<and>
         (\<not> reaches_query r \<longrightarrow>
            status (fst (serve pf req w)) = (case r of AddChatMessage _ _ _ _ \<Rightarrow> 400 | _ \<Rightarrow> 500))\<close>
proof -
  from assms(1,2) obtain msg where \<open>serve pf req w = catch_500 msg (sessions_try pf user r w)\<close>
    using serve_sessions by blast
  then show ?thesis
    using ensuresD [OF sessions_try_not_selected_answer [OF assms(3-5)]]
    by (cases r) (auto split: sum.splits)
qed

text \<open>
  C8, as amended: every query that a request to the sessions router sends to the collection
  filters on the user of the request. So a request of a user that names a session of
  another user leaves the store and the cache as they are and is answered with an error
  body: with 404 and \<^verbatim>\<open>Session not found\<close> when its body lets it reach the query and no
  call fails; with 500 when the query fails; and when its body does not let it reach the
  query, with 400 from the chat route and with 500 from the update of the metadata.
\<close>

theorem other_users_session_is_not_found:
  assumes \<open>auth w req = Some user\<close> and \<open>route req = Sessions r\<close>
  shows \<open>(\<forall>e \<in> set (effects w (snd (serve pf req w))). filters_on e = None \<or> filters_on e = Some user) \<and>
         (\<forall>sessionId i s.
            names_session r = Some sessionId \<and> castObjectId pf sessionId = Some i \<and>
            map_of (db w) i = Some s \<and> userId s \<noteq> user \<longrightarrow>
              db (snd (serve pf req w)) = db w \<and> redis (snd (serve pf req w)) = redis w \<and>
              is_error_body (body (fst (serve pf req w))) \<and>
              (reaches_query r \<and> next_fault w = None \<longrightarrow>
                 fst (serve pf req w) = \<lparr>status = 404, body = BError ''Session not found''\<rparr>) \<and>
              (reaches_query r \<and> next_fault w \<noteq> None \<longrightarrow> status (fst (serve pf req w)) = 500) \<and>
              (\<not> reaches_query r \<longrightarrow>
                 status (fst (serve pf req w)) = (case r of AddChatMessage _ _ _ _ \<Rightarrow> 400 | _ \<Rightarrow> 500)))\<close>
proof -
  from assms obtain msg where \<open>serve pf req w = catch_500 msg (sessions_try pf user r w)\<close>
    using serve_sessions by blast
  then have queries:
    \<open>\<forall>e \<in> set (effects w (snd (serve pf req w))). filters_on e = None \<or> filters_on e = Some user\<close>
    using ensuresD [OF sessions_try_filters [of pf user r w]] by simp
  have isolated:
    \<open>db (snd (serve pf req w)) = db w \<and> redis (snd (serve pf req w)) = redis w \<and>
     is_error_body (body (fst (serve pf req w))) \<and>
     (reaches_query r \<and> next_fault w = None \<longrightarrow>
        fst (serve pf req w) = \<lparr>status = 404, body = BError ''Session not found''\<rparr>) \<and>
     (reaches_query r \<and> next_fault w \<noteq> None \<longrightarrow> status (fst (serve pf req w)) = 500) \<and>
     (\<not> reaches_query r \<longrightarrow>
        status (fst (serve pf req w)) = (case r of AddChatMessage _ _ _ _ \<Rightarrow> 400 | _ \<Rightarrow> 500))\<close>
    if \<open>names_session r = Some sessionId\<close> and \<open>castObjectId pf sessionId = Some i\<close>
      and \<open>map_of (db w) i = Some s\<close> and \<open>userId s \<noteq> user\<close> for sessionId i s
  proof -
    from that(2-4) have hidden: \<open>matching pf (owned sessionId user) w = None\<close>
      by (simp add: matching_def owned_def)
    from that(2) have cast: \<open>castObjectId pf sessionId \<noteq> None\<close>
      by simp
    from not_selected_answer [OF assms that(1) hidden]
      not_selected_status [OF assms that(1) hidden cast] cast
    show ?thesis
      by simp
  qed
  from queries isolated show ?thesis
    by blast
qed

theorem other_users_session_is_not_found_witness:
  \<open>auth example_world (as_user ''bob'' (Sessions (UpdateCode ''s1'' ''x'' ''y'' None))) = Some 20 \<and>
    list_all (\<lambda>e. filters_on e = None \<or> filters_on e = Some 20)
      (effects example_world
         (snd (serve example_platform (as_user ''bob'' (Sessions (UpdateCode ''s1'' ''x'' ''y'' None))) example_world))) \<and>
    castObjectId example_platform ''s1'' = Some 1 \<and>
    map_of (db example_world) 1 = Some example_session \<and>
    userId example_session \<noteq> 20 \<and>
    reaches_query (UpdateCode ''s1'' ''x'' ''y'' None) \<and> next_fault example_world = None \<and>
    db (snd (serve example_platform (as_user ''bob'' (Sessions (UpdateCode ''s1'' ''x'' ''y'' None))) example_world))
      = db example_world \<and>
    fst (serve example_platform (as_user ''bob'' (Sessions (UpdateCode ''s1'' ''x'' ''y'' None))) example_world)
      = \<lparr>status = 404, body = BError ''Session not found''\<rparr>\<close>
proof -
  let ?r = \<open>UpdateCode ''s1'' ''x'' ''y'' None\<close>
  let ?req = \<open>as_user ''bob'' (Sessions ?r)\<close>
  have given: \<open>auth example_world ?req = Some 20\<close> \<open>route ?req = Sessions ?r\<close>
    by (simp_all add: auth_def as_user_def example_world_def)
  have other:
    \<open>names_session ?r = Some ''s1''\<close>
    \<open>castObjectId example_platform ''s1'' = Some 1\<close>
    \<open>map_of (db example_world) 1 = Some example_session\<close>
    \<open>userId example_session \<noteq> 20\<close>
    by (simp_all add: example_world_def example_platform_def example_session_def)
  have more: \<open>reaches_query ?r\<close> \<open>next_fault example_world = None\<close>
    by (simp_all add: next_fault_def example_world_def)
  note isolation = other_users_session_is_not_found [OF given, of example_platform]
  from isolation [THEN conjunct1] have
    \<open>list_all (\<lambda>e. filters_on e = None \<or> filters_on e = Some 20)
       (effects example_world (snd (serve example_platform ?req example_world)))\<close>
    by (simp add: list_all_iff)
  moreover from other have
    \<open>db (snd (serve example_platform ?req example_world)) = db example_world \<and>
     redis (snd (serve example_platform ?req example_world)) = redis example_world \<and>
     is_error_body (body (fst (serve example_platform ?req example_world))) \<and>
     (reaches_query ?r \<and> next_fault example_world = None \<longrightarrow>
        fst (serve example_platform ?req example_world) = \<lparr>status = 404, body = BError ''Session not found''\<rparr>) \<and>
     (reaches_query ?r \<and> next_fault example_world \<noteq> None \<longrightarrow>
        status (fst (serve example_platform ?req example_world)) = 500) \<and>
     (\<not> reaches_query ?r \<longrightarrow>
        status (fst (serve example_platform ?req example_world))
          = (case ?r of AddChatMessage _ _ _ _ \<Rightarrow> 400 | _ \<Rightarrow> 500))\<close>
    by (intro isolation [THEN conjunct2, rule_format, of \<open>''s1''\<close> 1 example_session]) simp_all
  ultimately show ?thesis
    using given(1) other(2-4) more by simp
qed

text \<open>
  The claim as stated fails: a chat request without a content that names the session of
  another user is answered with status 400, before any query.
\<close>

theorem chat_without_content_is_400:
  \<open>fst (serve example_platform (as_user ''bob'' (Sessions (AddChatMessage ''s1'' (Some ''user'') None None)))
          example_world)
    = \<lparr>status = 400, body = BError ''Role and content are required''\<rparr>\<close>
  by (simp add: serve_def as_user_def sessions_router_def with_auth_def auth_def example_world_def
      post_chat_def post_chat_try_def respond_def catch_500_def)

lemma delete_try_owner:
  assumes \<open>castObjectId pf sessionId = Some i\<close> and \<open>map_of (db w) i = Some s\<close> and \<open>doc_id s = i\<close>
    and \<open>userId s = user\<close> and \<open>isActive s\<close> and \<open>redisClient w\<close> and \<open>no_faults 2 w\<close>
  shows \<open>ensures (delete_session_try pf user sessionId w)
     (\<lambda>res w'. res = Inr \<lparr>status = 200, body = BMessage ''Session deleted successfully''\<rparr> \<and>
        db w' = AList.update i (s\<lparr>isActive := False, updatedAt := clock w\<rparr>) (db w))\<close>
proof -
  from assms(1-5) have selected: \<open>matching pf (owned sessionId user) w = Some (i, s)\<close>
    by (simp add: matching_def)
  from assms(7) have first: \<open>next_fault w = None\<close>
    and \<open>no_faults 1 (performed (DbFindOneAndUpdate (owned sessionId user)) w)\<close>
    using no_faults_next [of 2 w] by simp_all
  then have second: \<open>next_fault (performed (DbFindOneAndUpdate (owned sessionId user)) w) = None\<close>
    using no_faults_next(1) [of 1] by simp
  from assms(1,6) selected first second show ?thesis
    by (simp add: delete_session_try_def ensures_calls apply_update_def)
qed

lemma deleted_is_not_selected:
  \<open>castObjectId pf sessionId = Some i \<Longrightarrow> map_of (db w) i = Some s \<Longrightarrow> \<not> isActive s
     \<Longrightarrow> matching pf (owned sessionId user) w = None\<close>
  by (simp add: matching_def)

text \<open>
  C9, as amended: the owner's \<^verbatim>\<open>DELETE /:sessionId\<close> of an active session, when no call
  fails, sets \<^verbatim>\<open>isActive\<close> to false and \<^verbatim>\<open>updatedAt\<close> to the time of the request, and leaves
  every other field of the document and every other document as they are. As long as the
  document stays as the deletion left it, every request of any user that names the session
  leaves the store as it is and is answered with 404 and \<^verbatim>\<open>Session not found\<close> when its
  body lets it reach the query and no call fails, and otherwise with 400 or 500.
\<close>

theorem delete_is_soft_and_final:
  assumes \<open>auth w req = Some user\<close> and \<open>route req = Sessions (DeleteSession sessionId)\<close>
    and \<open>castObjectId pf sessionId = Some i\<close> and \<open>map_of (db w) i = Some s\<close> and \<open>doc_id s = i\<close>
    and \<open>userId s = user\<close> and \<open>isActive s\<close> and \<open>redisClient w\<close> and \<open>no_faults 2 w\<close>
  shows \<open>fst (serve pf req w) = \<lparr>status = 200, body = BMessage ''Session deleted successfully''\<rparr> \<and>
         map_of (db (snd (serve pf req w))) i = Some (s\<lparr>isActive := False, updatedAt := clock w\<rparr>) \<and>
         (\<forall>j. j \<noteq> i \<longrightarrow> map_of (db (snd (serve pf req w))) j = map_of (db w) j) \<and>
         (\<forall>w2 req2 user2 r2.
            map_of (db w2) i = map_of (db (snd (serve pf req w))) i \<and>
            auth w2 req2 = Some user2 \<and> route req2 = Sessions r2 \<and> names_session r2 = Some sessionId \<longrightarrow>
              db (snd (serve pf req2 w2)) = db w2 \<and>
              status (fst (serve pf req2 w2)) \<in> {400, 404, 500} \<and>
              (reaches_query r2 \<and> next_fault w2 = None \<longrightarrow>
                 fst (serve pf req2 w2) = \<lparr>status = 404, body = BError ''Session not found''\<rparr>))\<close>
proof -
  from assms(1,2) obtain msg where
    \<open>serve pf req w = catch_500 msg (sessions_try pf user (DeleteSession sessionId) w)\<close>
    using serve_sessions by blast
  then have deleted:
    \<open>fst (serve pf req w) = \<lparr>status = 200, body = BMessage ''Session deleted successfully''\<rparr>\<close>
    \<open>db (snd (serve pf req w)) = AList.update i (s\<lparr>isActive := False, updatedAt := clock w\<rparr>) (db w)\<close>
    using ensuresD [OF delete_try_owner [OF assms(3-9)]] by simp_all
  then have stored:
    \<open>map_of (db (snd (serve pf req w))) i = Some (s\<lparr>isActive := False, updatedAt := clock w\<rparr>)\<close>
    \<open>\<forall>j. j \<noteq> i \<longrightarrow> map_of (db (snd (serve pf req w))) j = map_of (db w) j\<close>
    by (simp_all add: update_conv')
  have afterwards:
    \<open>db (snd (serve pf req2 w2)) = db w2 \<and>
     status (fst (serve pf req2 w2)) \<in> {400, 404, 500} \<and>
     (reaches_query r2 \<and> next_fault w2 = None \<longrightarrow>
        fst (serve pf req2 w2) = \<lparr>status = 404, body = BError ''Session not found''\<rparr>)\<close>
    if \<open>map_of (db w2) i = map_of (db (snd (serve pf req w))) i\<close>
      and \<open>auth w2 req2 = Some user2\<close> and \<open>route req2 = Sessions r2\<close>
      and \<open>names_session r2 = Some sessionId\<close>
    for w2 req2 user2 r2
  proof -
    from that(1) stored(1) have \<open>matching pf (owned sessionId user2) w2 = None\<close>
      using deleted_is_not_selected [OF assms(3), of w2 \<open>s\<lparr>isActive := False, updatedAt := clock w\<rparr>\<close>]
      by simp
    from not_selected_answer [OF that(2-4) this] assms(3) show ?thesis
      by simp
  qed
  from deleted(1) stored afterwards show ?thesis
    by blast
qed

theorem delete_is_soft_and_final_witness:
  \<open>auth example_world (as_user ''alice'' (Sessions (DeleteSession ''s1''))) = Some 10 \<and>
    castObjectId example_platform ''s1'' = Some 1 \<and>
    map_of (db example_world) 1 = Some example_session \<and> doc_id example_session = 1 \<and>
    userId example_session = 10 \<and> isActive example_session \<and> redisClient example_world \<and>
    no_faults 2 example_world \<and>
    fst (serve example_platform (as_user ''alice'' (Sessions (DeleteSession ''s1''))) example_world)
      = \<lparr>status = 200, body = BMessage ''Session deleted successfully''\<rparr> \<and>
    map_of (db (snd (serve example_platform (as_user ''alice'' (Sessions (DeleteSession ''s1''))) example_world))) 1
      = Some (example_session\<lparr>isActive := False, updatedAt := 5000\<rparr>) \<and>
    fst (serve example_platform (as_user ''alice'' (Sessions (GetSession ''s1'')))
           (snd (serve example_platform (as_user ''alice'' (Sessions (DeleteSession ''s1''))) example_world)))
      = \<lparr>status = 404, body = BError ''Session not found''\<rparr>\<close>
proof -
  let ?del = \<open>as_user ''alice'' (Sessions (DeleteSession ''s1''))\<close>
  let ?get = \<open>as_user ''alice'' (Sessions (GetSession ''s1''))\<close>
  let ?w' = \<open>snd (serve example_platform ?del example_world)\<close>
  have given:
    \<open>auth example_world ?del = Some 10\<close>
    \<open>route ?del = Sessions (DeleteSession ''s1'')\<close>
    \<open>castObjectId example_platform ''s1'' = Some 1\<close>
    \<open>map_of (db example_world) 1 = Some example_session\<close>
    \<open>doc_id example_session = 1\<close>
    \<open>userId example_session = 10\<close>
    \<open>isActive example_session\<close>
    \<open>redisClient example_world\<close>
    \<open>no_faults 2 example_world\<close>
    by (simp_all add: auth_def as_user_def example_world_def example_platform_def example_session_def
        no_faults_def)
  note deleted = delete_is_soft_and_final [OF given]
  have \<open>faults example_world = []\<close>
    by (simp add: example_world_def)
  then have \<open>faults ?w' = []\<close>
    using serve_frame [of example_platform ?del example_world] by simp
  then have \<open>next_fault ?w' = None\<close>
    by (simp add: next_fault_def)
  moreover have \<open>auth example_world ?get = Some 10\<close>
    by (simp add: as_user_def auth_def example_world_def)
  then have \<open>auth ?w' ?get = Some 10\<close>
    by simp
  ultimately have later:
    \<open>auth ?w' ?get = Some 10\<close> \<open>route ?get = Sessions (GetSession ''s1'')\<close>
    \<open>names_session (GetSession ''s1'') = Some ''s1''\<close> \<open>reaches_query (GetSession ''s1'')\<close>
    \<open>next_fault ?w' = None\<close>
    by (simp_all add: as_user_def)
  note afterwards =
    deleted [THEN conjunct2, THEN conjunct2, THEN conjunct2, rule_format,
      of ?w' ?get 10 \<open>GetSession ''s1''\<close>]
  from later have
    \<open>fst (serve example_platform ?get ?w') = \<lparr>status = 404, body = BError ''Session not found''\<rparr>\<close>
    by (intro afterwards [THEN conjunct2, THEN conjunct2, rule_format]) simp_all
  moreover note deleted [THEN conjunct1] deleted [THEN conjunct2, THEN conjunct1]
  moreover have \<open>clock example_world = 5000\<close>
    by (simp add: example_world_def)
  ultimately show ?thesis
    using given by simp
qed

text \<open>
  The claim as stated fails: the deletion also sets \<^verbatim>\<open>updatedAt\<close>, since the schema has
  \<^verbatim>\<open>timestamps: true\<close>; and after it a chat request without a content that names the
  session is answered with status 400, not 404.
\<close>

theorem delete_touches_updatedAt:
  \<open>updatedAt example_session = 1000 \<and>
    map_option updatedAt
      (map_of (db (snd (serve example_platform (as_user ''alice'' (Sessions (DeleteSession ''s1''))) example_world))) 1)
      = Some 5000 \<and>
    fst (serve example_platform (as_user ''alice'' (Sessions (AddChatMessage ''s1'' (Some ''user'') None None)))
           (snd (serve example_platform (as_user ''alice'' (Sessions (DeleteSession ''s1''))) example_world)))
      = \<lparr>status = 400, body = BError ''Role and content are required''\<rparr>\<close>
proof -
  let ?del = \<open>as_user ''alice'' (Sessions (DeleteSession ''s1''))\<close>
  let ?chat = \<open>as_user ''alice'' (Sessions (AddChatMessage ''s1'' (Some ''user'') None None))\<close>
  let ?w' = \<open>snd (serve example_platform ?del example_world)\<close>
  have given:
    \<open>castObjectId example_platform ''s1'' = Some 1\<close>
    \<open>map_of (db example_world) 1 = Some example_session\<close>
    \<open>doc_id example_session = 1\<close>
    \<open>userId example_session = 10\<close>
    \<open>isActive example_session\<close>
    \<open>redisClient example_world\<close>
    \<open>no_faults 2 example_world\<close>
    by (simp_all add: example_world_def example_platform_def example_session_def no_faults_def)
  have \<open>serve example_platform ?del example_world
          = catch_500 ''Failed to delete session'' (delete_session_try example_platform 10 ''s1'' example_world)\<close>
    by (simp add: serve_def as_user_def sessions_router_def with_auth_def auth_def example_world_def
        delete_session_def)
  then have \<open>db ?w' = AList.update 1 (example_session\<lparr>isActive := False, updatedAt := clock example_world\<rparr>)
                        (db example_world)\<close>
    using ensuresD [OF delete_try_owner [OF given]] by simp
  then have stored: \<open>map_option updatedAt (map_of (db ?w') 1) = Some 5000\<close>
    by (simp add: update_conv' example_world_def)
  have \<open>auth example_world ?chat = Some 10\<close>
    by (simp add: as_user_def auth_def example_world_def)
  then have \<open>auth ?w' ?chat = Some 10\<close>
    by simp
  then have \<open>fst (serve example_platform ?chat ?w')
               = \<lparr>status = 400, body = BError ''Role and content are required''\<rparr>\<close>
    by (simp add: serve_def sessions_router_def with_auth_user as_user_def post_chat_def post_chat_try_def
        respond_def)
  with stored show ?thesis
    by (simp add: example_session_def)
qed

section \<open>The cache as a mirror of the session data\<close>

lemma matching_SomeD:
  \<open>matching pf f w = Some (i, s) \<Longrightarrow>
     castObjectId pf (f_id f) = Some i \<and> map_of (db w) i = Some s \<and> doc_id s = i \<and>
     userId s = f_userId f \<and> isActive s = f_isActive f\<close>
  by (auto simp: matching_def split: option.splits if_splits)

lemma matching_same_db: \<open>db w' = db w \<Longrightarrow> matching pf f w' = matching pf f w\<close>
  by (simp add: matching_def cong: option.case_cong)

lemma sessions_try_no_cache_read:
  \<open>ensures (sessions_try pf user r w) (\<lambda>_ w'. \<not> list_ex is_redis_get (effects w w'))\<close>
  by (cases r) (simp_all add: sessions_try_defs ensures_calls Let_def split: option.split)

lemma get_session_try_reads_store:
  \<open>ensures (get_session_try pf user sessionId w)
     (\<lambda>_ w'. castObjectId pf sessionId \<noteq> None \<longrightarrow> take 1 (effects w w') = [DbFindOne (owned sessionId user)])\<close>
  by (simp add: get_session_try_def ensures_calls split: option.split)

lemma hydrate_full:
  \<open>chatHistory s \<noteq> None \<Longrightarrow> componentCode s \<noteq> None \<Longrightarrow> uiState s \<noteq> None \<Longrightarrow> hydrate now s = s\<close>
  by (auto simp: hydrate_def)

text \<open>
  What \<^verbatim>\<open>GET /:sessionId\<close> writes to the cache when it answers 200 is the session data
  of the document that it has read; what the three writes of session data write to the cache
  is the session data of the document that they have saved.
\<close>

lemma get_session_try_mirrors:
  \<open>ensures (get_session_try pf user sessionId w)
     (\<lambda>res w'. \<forall>answer. res = Inr answer \<and> status answer = 200 \<longrightarrow>
        (\<exists>i s. matching pf (owned sessionId user) w = Some (i, s) \<and>
           effects w w'
             = [DbFindOne (owned sessionId user),
                RedisSetEx (''session:'' @ sessionId) 3600 (session_data_or_defaults (hydrate (clock w) s))] \<and>
           redis w' (''session:'' @ sessionId)
             = Some (clock w + 3600 * 1000, session_data_or_defaults (hydrate (clock w) s))))\<close>
  by (auto simp: get_session_try_def ensures_calls split: option.split)

lemma sessions_try_saves_and_mirrors:
  assumes \<open>names_session r = Some sessionId\<close> and \<open>saves_session_data r\<close>
  shows \<open>ensures (sessions_try pf user r w)
     (\<lambda>res w'. \<forall>answer. res = Inr answer \<and> status answer = 200 \<longrightarrow>
        (\<exists>d. effects w w'
               = [DbFindOne (owned sessionId user), DbSave d,
                  RedisSetEx (''session:'' @ sessionId) 3600 (session_data d)] \<and>
             redis w' (''session:'' @ sessionId) = Some (clock w + 3600 * 1000, session_data d)))\<close>
  using assms
  by (cases r)
     (auto simp: sessions_try_defs ensures_calls Let_def hydrate_def split: option.split)

text \<open>A read of a session by its owner, when no call fails.\<close>

lemma get_session_try_owner:
  assumes \<open>matching pf (owned sessionId user) w = Some (i, s)\<close> and \<open>redisClient w\<close> and \<open>no_faults 2 w\<close>
  shows \<open>ensures (get_session_try pf user sessionId w)
     (\<lambda>res w'.
        res = Inr \<lparr>status = 200, body = BSession (ensureSessionDefaults (clock w) (hydrate (clock w) s))\<rparr> \<and>
        effects w w'
          = [DbFindOne (owned sessionId user),
             RedisSetEx (''session:'' @ sessionId) 3600 (session_data_or_defaults (hydrate (clock w) s))] \<and>
        db w' = db w \<and>
        redis w' = (redis w)(''session:'' @ sessionId
                      \<mapsto> (clock w + 3600 * 1000, session_data_or_defaults (hydrate (clock w) s))))\<close>
proof -
  from assms(3) have first: \<open>next_fault w = None\<close>
    and \<open>no_faults 1 (performed (DbFindOne (owned sessionId user)) w)\<close>
    using no_faults_next [of 2 w] by simp_all
  then have second: \<open>next_fault (performed (DbFindOne (owned sessionId user)) w) = None\<close>
    using no_faults_next(1) [of 1] by simp
  from matching_SomeD [OF assms(1)] have \<open>castObjectId pf sessionId = Some i\<close>
    by simp
  with assms(1,2) first second show ?thesis
    by (simp add: get_session_try_def ensures_calls)
qed

text \<open>
  C1, as amended: no route of the sessions router reads the cache. \<^verbatim>\<open>GET /:sessionId\<close>
  always asks the store first, and when it answers with status 200 its only other call has
  written to the key of the session in the cache, for 3600 seconds, the session data of the
  document that it has read from the store. When one of the three writes of session data
  (chat, code, UI state) answers with status 200, it has read the document, saved it, and
  then written the session data of the document that it has saved to the key of the session
  in the cache, for 3600 seconds.
\<close>

theorem sessions_cache_is_written_not_read:
  assumes \<open>auth w req = Some user\<close> and \<open>route req = Sessions r\<close>
  shows \<open>\<not> list_ex is_redis_get (effects w (snd (serve pf req w))) \<and>
         (\<forall>sessionId. r = GetSession sessionId \<and> castObjectId pf sessionId \<noteq> None \<longrightarrow>
            take 1 (effects w (snd (serve pf req w))) = [DbFindOne (owned sessionId user)]) \<and>
         (\<forall>sessionId. r = GetSession sessionId \<and> status (fst (serve pf req w)) = 200 \<longrightarrow>
            (\<exists>i s. matching pf (owned sessionId user) w = Some (i, s) \<and>
               effects w (snd (serve pf req w))
                 = [DbFindOne (owned sessionId user),
                    RedisSetEx (''session:'' @ sessionId) 3600
                      (session_data_or_defaults (hydrate (clock w) s))] \<and>
               redis (snd (serve pf req w)) (''session:'' @ sessionId)
                 = Some (clock w + 3600 * 1000, session_data_or_defaults (hydrate (clock w) s)))) \<and>
         (\<forall>sessionId. names_session r = Some sessionId \<and> saves_session_data r \<and>
              status (fst (serve pf req w)) = 200 \<longrightarrow>
            (\<exists>d. effects w (snd (serve pf req w))
                   = [DbFindOne (owned sessionId user), DbSave d,
                      RedisSetEx (''session:'' @ sessionId) 3600 (session_data d)] \<and>
                 redis (snd (serve pf req w)) (''session:'' @ sessionId)
                   = Some (clock w + 3600 * 1000, session_data d)))\<close>
proof -
  from assms obtain msg where served: \<open>serve pf req w = catch_500 msg (sessions_try pf user r w)\<close>
    using serve_sessions by blast
  then have no_read: \<open>\<not> list_ex is_redis_get (effects w (snd (serve pf req w)))\<close>
    using ensuresD [OF sessions_try_no_cache_read [of pf user r w]] by simp
  have store_first:
    \<open>take 1 (effects w (snd (serve pf req w))) = [DbFindOne (owned sessionId user)]\<close>
    if \<open>r = GetSession sessionId\<close> and \<open>castObjectId pf sessionId \<noteq> None\<close> for sessionId
    using that served ensuresD [OF get_session_try_reads_store [of pf user sessionId w]] by simp
  have read_mirrored:
    \<open>\<exists>i s. matching pf (owned sessionId user) w = Some (i, s) \<and>
        effects w (snd (serve pf req w))
          = [DbFindOne (owned sessionId user),
             RedisSetEx (''session:'' @ sessionId) 3600
               (session_data_or_defaults (hydrate (clock w) s))] \<and>
        redis (snd (serve pf req w)) (''session:'' @ sessionId)
          = Some (clock w + 3600 * 1000, session_data_or_defaults (hydrate (clock w) s))\<close>
    if \<open>r = GetSession sessionId\<close> and \<open>status (fst (serve pf req w)) = 200\<close> for sessionId
    using that served ensuresD [OF get_session_try_mirrors [of pf user sessionId w]]
    by (cases \<open>fst (get_session_try pf user sessionId w)\<close>) simp_all
  have saved_mirrored:
    \<open>\<exists>d. effects w (snd (serve pf req w))
            = [DbFindOne (owned sessionId user), DbSave d,
               RedisSetEx (''session:'' @ sessionId) 3600 (session_data d)] \<and>
          redis (snd (serve pf req w)) (''session:'' @ sessionId)
            = Some (clock w + 3600 * 1000, session_data d)\<close>
    if \<open>names_session r = Some sessionId\<close> and \<open>saves_session_data r\<close>
      and \<open>status (fst (serve pf req w)) = 200\<close> for sessionId
    using that(3) served ensuresD [OF sessions_try_saves_and_mirrors [OF that(1,2), of pf user w]]
    by (cases \<open>fst (sessions_try pf user r w)\<close>) simp_all
  from no_read store_first read_mirrored saved_mirrored show ?thesis
    by blast
qed

theorem sessions_cache_is_written_not_read_witness:
  \<open>auth example_world (as_user ''alice'' (Sessions (AddChatMessage ''s1'' (Some ''user'') (Some ''hi'') None))) = Some 10 \<and>
    status (fst (serve example_platform
      (as_user ''alice'' (Sessions (AddChatMessage ''s1'' (Some ''user'') (Some ''hi'') None))) example_world)) = 200 \<and>
    (\<exists>d. effects example_world (snd (serve example_platform
         (as_user ''alice'' (Sessions (AddChatMessage ''s1'' (Some ''user'') (Some ''hi'') None))) example_world))
         = [DbFindOne (owned ''s1'' 10), DbSave d, RedisSetEx ''session:s1'' 3600 (session_data d)] \<and>
       redis (snd (serve example_platform
         (as_user ''alice'' (Sessions (AddChatMessage ''s1'' (Some ''user'') (Some ''hi'') None))) example_world)) ''session:s1''
         = Some (clock example_world + 3600 * 1000, session_data d))\<close>
proof -
  let ?r = \<open>AddChatMessage ''s1'' (Some ''user'') (Some ''hi'') None\<close>
  let ?req = \<open>as_user ''alice'' (Sessions ?r)\<close>
  have given: \<open>auth example_world ?req = Some 10\<close> \<open>route ?req = Sessions ?r\<close>
    by (simp_all add: auth_def as_user_def example_world_def)
  have answered: \<open>status (fst (serve example_platform ?req example_world)) = 200\<close>
    by (simp add: serve_def as_user_def sessions_router_def with_auth_def auth_def example_world_def
        example_platform_def example_session_def post_chat_def post_chat_try_def
        Session_findOne_def matching_def owned_def hydrate_def addChatMessage_def Session_save_def
        valid_session_def valid_title_def valid_description_def valid_chat_message_def
        valid_ui_state_def default_ui_state_def
        setSessionData_def getRedisClient_def setEx_def
        and_then_def call_def next_fault_def performed_def respond_def catch_500_def Let_def)
  note mirror =
    sessions_cache_is_written_not_read [OF given, of example_platform,
      THEN conjunct2, THEN conjunct2, THEN conjunct2, rule_format, of \<open>''s1''\<close>]
  from answered have
    \<open>\<exists>d. effects example_world (snd (serve example_platform ?req example_world))
            = [DbFindOne (owned ''s1'' 10), DbSave d,
               RedisSetEx (''session:'' @ ''s1'') 3600 (session_data d)] \<and>
          redis (snd (serve example_platform ?req example_world)) (''session:'' @ ''s1'')
            = Some (clock example_world + 3600 * 1000, session_data d)\<close>
    by (intro mirror) simp_all
  with given(1) answered show ?thesis
    by simp
qed

text \<open>
  The claim as stated fails: when the cache holds the session data, not yet expired, a read
  of the session still asks the store and does not read the cache.
\<close>

theorem read_with_filled_cache_asks_store:
  \<open>redis example_cached_world ''session:s1'' = Some (3605000, session_data_or_defaults example_session) \<and>
    clock example_cached_world = 5000 \<and>
    effects example_cached_world
      (snd (serve example_platform (as_user ''alice'' (Sessions (GetSession ''s1''))) example_cached_world))
      = [DbFindOne (owned ''s1'' 10),
         RedisSetEx ''session:s1'' 3600 (session_data_or_defaults example_session)]\<close>
proof -
  let ?get = \<open>as_user ''alice'' (Sessions (GetSession ''s1''))\<close>
  have served: \<open>serve example_platform ?get w
          = catch_500 ''Failed to fetch session'' (get_session_try example_platform 10 ''s1'' w)\<close>
    if \<open>tokens w = tokens example_world\<close> for w
    using that
    by (simp add: serve_def as_user_def sessions_router_def with_auth_def auth_def example_world_def
        get_session_def)
  have first:
    \<open>matching example_platform (owned ''s1'' 10) example_world = Some (1, example_session)\<close>
    \<open>redisClient example_world\<close> \<open>no_faults 2 example_world\<close>
    \<open>faults example_world = []\<close> \<open>clock example_world = 5000\<close> \<open>redis example_world = Map.empty\<close>
    by (simp_all add: matching_def owned_def example_world_def example_platform_def example_session_def
        no_faults_def)
  have full: \<open>hydrate now example_session = example_session\<close> for now
    by (simp add: hydrate_full example_session_def)
  from served [of example_world] have cached:
    \<open>db example_cached_world = db example_world\<close>
    \<open>redis example_cached_world ''session:s1'' = Some (3605000, session_data_or_defaults example_session)\<close>
    using ensuresD [OF get_session_try_owner [OF first(1-3)]] first(5,6)
    by (simp_all add: example_cached_world_def full)
  have frame:
    \<open>tokens example_cached_world = tokens example_world\<close>
    \<open>redisClient example_cached_world\<close> \<open>faults example_cached_world = []\<close>
    \<open>clock example_cached_world = 5000\<close>
    using serve_frame [of example_platform ?get example_world] first(2,4,5)
    by (simp_all add: example_cached_world_def)
  from first(1) have second:
    \<open>matching example_platform (owned ''s1'' 10) example_cached_world = Some (1, example_session)\<close>
    using matching_same_db [OF cached(1)] by simp
  from frame(3) have \<open>no_faults 2 example_cached_world\<close>
    by (simp add: no_faults_def)
  with served [OF frame(1)] second frame(2) have
    \<open>effects example_cached_world (snd (serve example_platform ?get example_cached_world))
       = [DbFindOne (owned ''s1'' 10),
          RedisSetEx ''session:s1'' 3600 (session_data_or_defaults example_session)]\<close>
    using ensuresD [OF get_session_try_owner [of example_platform \<open>''s1''\<close> 10 example_cached_world 1 example_session]]
    by (simp add: full)
  with cached(2) frame(4) show ?thesis
    by simp
qed

section \<open>The match of the parse blocks\<close>

text \<open>
  The regular expression, run by the matcher, finds what the specification says in words:
  the text from the first opening brace through the last closing brace.
\<close>

lemma rests_any_star: \<open>rx_rests (Star (Chr space_or_not)) s = suffixes s\<close>
  by (induction s) (simp_all add: space_or_not_def)

lemma rests_until_close:
  \<open>rx_rests (Seq (Star (Chr space_or_not)) (Chr (\<lambda>c. c = CHR ''}''))) (c # cs) =
     rx_rests (Seq (Star (Chr space_or_not)) (Chr (\<lambda>c. c = CHR ''}''))) cs @
     (if c = CHR ''}'' then [cs] else [])\<close>
  \<open>rx_rests (Seq (Star (Chr space_or_not)) (Chr (\<lambda>c. c = CHR ''}''))) [] = []\<close>
  by (simp_all add: rests_any_star del: rx_rests.simps(5) rx_rests.simps(6))

lemma rests_json_rx:
  \<open>rx_rests json_rx s =
     (case s of
        [] \<Rightarrow> []
      | c # cs \<Rightarrow>
          if c = CHR ''{''
          then rx_rests (Seq (Star (Chr space_or_not)) (Chr (\<lambda>c. c = CHR ''}''))) cs
          else [])\<close>
  by (cases s) (simp_all add: json_rx_def)

declare rx_rests.simps [simp del]

lemma rests_until_close_shorter:
  \<open>t \<in> set (rx_rests (Seq (Star (Chr space_or_not)) (Chr (\<lambda>c. c = CHR ''}''))) s)
     \<Longrightarrow> length t < length s\<close>
proof (induction s)
  case Nil
  then show ?case
    by (simp add: rests_until_close)
next
  case (Cons c cs)
  then show ?case
    by (auto simp: rests_until_close split: if_splits)
qed

lemma rests_until_close_empty:
  \<open>rx_rests (Seq (Star (Chr space_or_not)) (Chr (\<lambda>c. c = CHR ''}''))) s = []
     \<longleftrightarrow> CHR ''}'' \<notin> set s\<close>
  by (induction s) (auto simp: rests_until_close)

lemma upto_last_close_Cons:
  \<open>rev (dropWhile (\<lambda>c. c \<noteq> CHR ''}'') (rev cs @ [c])) =
     (if CHR ''}'' \<in> set cs then c # rev (dropWhile (\<lambda>c. c \<noteq> CHR ''}'') (rev cs))
      else if c = CHR ''}'' then [c] else [])\<close>
proof (cases \<open>CHR ''}'' \<in> set cs\<close>)
  case True
  then have \<open>\<exists>x \<in> set (rev cs). \<not> x \<noteq> CHR ''}''\<close>
    by simp
  then have \<open>dropWhile (\<lambda>c. c \<noteq> CHR ''}'') (rev cs @ [c]) = dropWhile (\<lambda>c. c \<noteq> CHR ''}'') (rev cs) @ [c]\<close>
    by (intro dropWhile_append1) auto
  with True show ?thesis
    by simp
next
  case False
  then have \<open>\<forall>x \<in> set (rev cs). x \<noteq> CHR ''}''\<close>
    by auto
  then have \<open>dropWhile (\<lambda>c. c \<noteq> CHR ''}'') (rev cs @ [c]) = dropWhile (\<lambda>c. c \<noteq> CHR ''}'') [c]\<close>
    by (intro dropWhile_append2) auto
  with False show ?thesis
    by simp
qed

lemma first_rest_until_close:
  assumes \<open>CHR ''}'' \<in> set s\<close>
  shows \<open>take (length s - length (hd (rx_rests (Seq (Star (Chr space_or_not)) (Chr (\<lambda>c. c = CHR ''}''))) s))) s
          = rev (dropWhile (\<lambda>c. c \<noteq> CHR ''}'') (rev s))\<close>
  using assms
proof (induction s)
  case Nil
  then show ?case
    by simp
next
  case (Cons c cs)
  let ?until = \<open>Seq (Star (Chr space_or_not)) (Chr (\<lambda>c. c = CHR ''}''))\<close>
  show ?case
  proof (cases \<open>CHR ''}'' \<in> set cs\<close>)
    case True
    then have nonempty: \<open>rx_rests ?until cs \<noteq> []\<close>
      by (simp add: rests_until_close_empty)
    then have \<open>hd (rx_rests ?until cs) \<in> set (rx_rests ?until cs)\<close>
      by simp
    then have shorter: \<open>length (hd (rx_rests ?until cs)) < length cs\<close>
      by (rule rests_until_close_shorter)
    from nonempty have \<open>hd (rx_rests ?until (c # cs)) = hd (rx_rests ?until cs)\<close>
      by (simp add: rests_until_close(1))
    moreover from shorter have \<open>Suc (length cs) - length (hd (rx_rests ?until cs))
        = Suc (length cs - length (hd (rx_rests ?until cs)))\<close>
      by arith
    ultimately show ?thesis
      using Cons.IH [OF True] True by (simp add: upto_last_close_Cons)
  next
    case False
    with Cons.prems have \<open>c = CHR ''}''\<close>
      by simp
    moreover from False have \<open>rx_rests ?until cs = []\<close>
      by (simp add: rests_until_close_empty)
    ultimately show ?thesis
      using False by (simp add: rests_until_close(1) upto_last_close_Cons)
  qed
qed

lemma search_json_rx_none:
  \<open>CHR ''}'' \<notin> set s \<Longrightarrow> rx_search json_rx pre s = None\<close>
proof (induction s arbitrary: pre)
  case Nil
  then show ?case
    by (simp add: rests_json_rx)
next
  case (Cons c cs)
  then have \<open>rx_rests json_rx (c # cs) = []\<close>
    by (simp add: rests_json_rx rests_until_close_empty)
  with Cons show ?case
    by simp
qed

lemma search_json_rx:
  \<open>map_option (\<lambda>(_, m, _). m) (rx_search json_rx pre s) = first_to_last_brace s\<close>
proof (induction s arbitrary: pre)
  case Nil
  then show ?case
    by (simp add: rests_json_rx first_to_last_brace_def)
next
  case (Cons c cs)
  let ?until = \<open>Seq (Star (Chr space_or_not)) (Chr (\<lambda>c. c = CHR ''}''))\<close>
  show ?case
  proof (cases \<open>c = CHR ''{''\<close>)
    case False
    then have \<open>rx_rests json_rx (c # cs) = []\<close>
      by (simp add: rests_json_rx)
    with False Cons.IH [of \<open>c # pre\<close>] show ?thesis
      by (simp add: first_to_last_brace_def)
  next
    case True
    show ?thesis
    proof (cases \<open>CHR ''}'' \<in> set cs\<close>)
      case False
      with True have \<open>rx_rests json_rx (c # cs) = []\<close>
        by (simp add: rests_json_rx rests_until_close_empty)
      moreover from False have \<open>rx_search json_rx (c # pre) cs = None\<close>
        by (rule search_json_rx_none)
      moreover from False have none: \<open>dropWhile (\<lambda>c. c \<noteq> CHR ''}'') (rev cs) = []\<close>
        by (auto simp: dropWhile_eq_Nil_conv)
      ultimately show ?thesis
        using True by (simp add: first_to_last_brace_def none)
    next
      case close: True
      then obtain t ts where rests: \<open>rx_rests ?until cs = t # ts\<close>
        using rests_until_close_empty [of cs] by (cases \<open>rx_rests ?until cs\<close>) auto
      then have \<open>t \<in> set (rx_rests ?until cs)\<close>
        by simp
      then have shorter: \<open>length t < length cs\<close>
        by (rule rests_until_close_shorter)
      from rests first_rest_until_close [OF close]
      have matched: \<open>take (length cs - length t) cs = rev (dropWhile (\<lambda>c. c \<noteq> CHR ''}'') (rev cs))\<close>
        by simp
      from close have \<open>rev (dropWhile (\<lambda>c. c \<noteq> CHR ''}'') (rev cs)) \<noteq> []\<close>
        by (auto simp: dropWhile_eq_Nil_conv)
      then obtain x xs where upto: \<open>rev (dropWhile (\<lambda>c. c \<noteq> CHR ''}'') (rev cs)) = x # xs\<close>
        by (cases \<open>rev (dropWhile (\<lambda>c. c \<noteq> CHR ''}'') (rev cs))\<close>) auto
      from shorter have \<open>Suc (length cs) - length t = Suc (length cs - length t)\<close>
        by arith
      with True rests matched upto show ?thesis
        by (simp add: rests_json_rx first_to_last_brace_def)
    qed
  qed
qed

lemma match_json_rx: \<open>rx_match json_rx text = first_to_last_brace text\<close>
  by (simp add: rx_match_def search_json_rx)

section \<open>Thrown errors\<close>

text \<open>
  No request makes more than three calls; and a call that fails is the last call of its
  request, whose \<^verbatim>\<open>try\<close> block throws.
\<close>

lemma ensures_mono: \<open>ensures m P \<Longrightarrow> (\<And>r w. P r w \<Longrightarrow> Q r w) \<Longrightarrow> ensures m Q\<close>
  by (simp add: ensures_def split: prod.splits)

lemma sessions_try_calls:
  \<open>ensures (sessions_try pf user r w) (\<lambda>_ w'. length (effects w w') \<le> 3)\<close>
  by (cases r) (simp_all add: sessions_try_defs ensures_calls Let_def split: option.split)

lemma ai_try_calls:
  \<open>ensures (ai_try pf user r w) (\<lambda>_ w'. length (effects w w') \<le> 3)\<close>
  by (cases r) (simp_all add: ai_try_defs ensures_calls Let_def split: option.split sum.split)

lemma faults_at:
  assumes \<open>faults w = replicate k None @ Some m # rest\<close>
  shows \<open>k = 0 \<Longrightarrow> next_fault w = Some m\<close>
    and \<open>k = 1 \<Longrightarrow> next_fault w = None \<and> next_fault (performed e1 w) = Some m\<close>
    and \<open>k = 2 \<Longrightarrow> next_fault w = None \<and> next_fault (performed e1 w) = None \<and>
           next_fault (performed e2 (performed e1 w)) = Some m\<close>
  using assms by (simp_all add: next_fault_def eval_nat_numeral)

lemma sessions_try_fault:
  assumes \<open>faults w = replicate k None @ Some m # rest\<close>
  shows \<open>ensures (sessions_try pf user r w)
     (\<lambda>res w'. k < length (effects w w') \<longrightarrow> (\<exists>e. res = Inl e) \<and> length (effects w w') = Suc k)\<close>
proof -
  consider \<open>k = 0\<close> | \<open>k = 1\<close> | \<open>k = 2\<close> | \<open>3 \<le> k\<close>
    by arith
  then show ?thesis
  proof cases
    case 1
    with faults_at(1) [OF assms] show ?thesis
      by (cases r) (simp_all add: sessions_try_defs ensures_calls Let_def split: option.split)
  next
    case 2
    with faults_at(2) [OF assms] show ?thesis
      by (cases r) (simp_all add: sessions_try_defs ensures_calls Let_def split: option.split)
  next
    case 3
    with faults_at(3) [OF assms] show ?thesis
      by (cases r) (simp_all add: sessions_try_defs ensures_calls Let_def split: option.split)
  next
    case 4
    then show ?thesis
      by (intro ensures_mono [OF sessions_try_calls]) simp
  qed
qed

lemma ai_try_fault:
  assumes \<open>faults w = replicate k None @ Some m # rest\<close>
  shows \<open>ensures (ai_try pf user r w)
     (\<lambda>res w'. k < length (effects w w') \<longrightarrow> (\<exists>e. res = Inl e) \<and> length (effects w w') = Suc k)\<close>
proof -
  consider \<open>k = 0\<close> | \<open>k = 1\<close> | \<open>k = 2\<close> | \<open>3 \<le> k\<close>
    by arith
  then show ?thesis
  proof cases
    case 1
    with faults_at(1) [OF assms] show ?thesis
      by (cases r) (simp_all add: ai_try_defs ensures_calls Let_def split: option.split sum.split)
  next
    case 2
    with faults_at(2) [OF assms] show ?thesis
      by (cases r) (simp_all add: ai_try_defs ensures_calls Let_def split: option.split sum.split)
  next
    case 3
    with faults_at(3) [OF assms] show ?thesis
      by (cases r) (simp_all add: ai_try_defs ensures_calls Let_def split: option.split sum.split)
  next
    case 4
    then show ?thesis
      by (intro ensures_mono [OF ai_try_calls]) simp
  qed
qed

lemma serve_try_block:
  assumes \<open>auth w req = Some user\<close>
  shows \<open>snd (serve pf req w) = snd (try_block pf user (route req) w) \<and>
         (case fst (try_block pf user (route req) w) of
            Inl e \<Rightarrow> status (fst (serve pf req w)) = 500 \<and> is_error_body (body (fst (serve pf req w)))
          | Inr answer \<Rightarrow> fst (serve pf req w) = answer)\<close>
proof (cases \<open>route req\<close>)
  case (Sessions r)
  with assms obtain msg where \<open>serve pf req w = catch_500 msg (sessions_try pf user r w)\<close>
    using serve_sessions by blast
  with Sessions show ?thesis
    by (simp split: sum.split)
next
  case (Ai r)
  with assms obtain msg where \<open>serve pf req w = catch_500_details msg (ai_try pf user r w)\<close>
    using serve_ai by blast
  with Ai show ?thesis
    by (simp split: sum.split)
qed

text \<open>
  C3, as amended: what the \<^verbatim>\<open>try\<close> block of a handler throws is answered with status 500
  and a body with the field \<^verbatim>\<open>error\<close>, and nothing else is done: the world is left as
  it was when the error was thrown. What the block answers is the answer of the request. And
  when a call of a request fails, the request is answered with status 500 and that call is
  its last call: nothing is tried again and nothing is undone. (A failure of
  \<^verbatim>\<open>JSON.parse\<close> on the text of the API is not thrown by the block: the inner
  \<^verbatim>\<open>try ... catch\<close> of the AI handlers answers it with a fallback object.)
\<close>

theorem thrown_errors_are_answered_with_500:
  assumes \<open>auth w req = Some user\<close>
  shows \<open>(\<forall>e w'. try_block pf user (route req) w = (Inl e, w') \<longrightarrow>
            snd (serve pf req w) = w' \<and> status (fst (serve pf req w)) = 500 \<and>
            is_error_body (body (fst (serve pf req w)))) \<and>
         (\<forall>answer w'. try_block pf user (route req) w = (Inr answer, w') \<longrightarrow> serve pf req w = (answer, w')) \<and>
         (\<forall>k m rest. faults w = replicate k None @ Some m # rest \<and>
              k < length (effects w (snd (serve pf req w))) \<longrightarrow>
            status (fst (serve pf req w)) = 500 \<and> is_error_body (body (fst (serve pf req w))) \<and>
            length (effects w (snd (serve pf req w))) = Suc k)\<close>
proof -
  note served = serve_try_block [OF assms, of pf]
  have thrown:
    \<open>snd (serve pf req w) = w' \<and> status (fst (serve pf req w)) = 500 \<and>
     is_error_body (body (fst (serve pf req w)))\<close>
    if \<open>try_block pf user (route req) w = (Inl e, w')\<close> for e w'
    using served that by simp
  have answered: \<open>serve pf req w = (answer, w')\<close>
    if \<open>try_block pf user (route req) w = (Inr answer, w')\<close> for answer w'
    using served that by (simp add: prod_eq_iff)
  have failing:
    \<open>status (fst (serve pf req w)) = 500 \<and> is_error_body (body (fst (serve pf req w))) \<and>
     length (effects w (snd (serve pf req w))) = Suc k\<close>
    if faults: \<open>faults w = replicate k None @ Some m # rest\<close>
      and calls: \<open>k < length (effects w (snd (serve pf req w)))\<close> for k m rest
  proof -
    have \<open>(\<exists>e. fst (try_block pf user (route req) w) = Inl e) \<and>
          length (effects w (snd (serve pf req w))) = Suc k\<close>
    proof (cases \<open>route req\<close>)
      case (Sessions r)
      with calls served ensuresD [OF sessions_try_fault [OF faults, of pf user r]]
      show ?thesis
        by simp
    next
      case (Ai r)
      with calls served ensuresD [OF ai_try_fault [OF faults, of pf user r]]
      show ?thesis
        by simp
    qed
    with served show ?thesis
      by auto
  qed
  from thrown answered failing show ?thesis
    by blast
qed

theorem thrown_errors_are_answered_with_500_witness:
  \<open>auth example_failing_world (as_user ''alice'' (Sessions (AddChatMessage ''s1'' (Some ''user'') (Some ''hi'') None))) = Some 10 \<and>
    faults example_failing_world = replicate 2 None @ Some ''redis is down'' # [] \<and>
    fst (try_block example_platform 10
          (route (as_user ''alice'' (Sessions (AddChatMessage ''s1'' (Some ''user'') (Some ''hi'') None))))
          example_failing_world) = Inl (Error ''redis is down'') \<and>
    status (fst (serve example_platform
      (as_user ''alice'' (Sessions (AddChatMessage ''s1'' (Some ''user'') (Some ''hi'') None))) example_failing_world)) = 500 \<and>
    length (effects example_failing_world (snd (serve example_platform
      (as_user ''alice'' (Sessions (AddChatMessage ''s1'' (Some ''user'') (Some ''hi'') None))) example_failing_world))) = 3 \<and>
    map_option chatHistory (map_of (db (snd (serve example_platform
      (as_user ''alice'' (Sessions (AddChatMessage ''s1'' (Some ''user'') (Some ''hi'') None))) example_failing_world))) 1)
      = Some (Some [\<lparr>role = ''user'', content = ''hi'', timestamp = 5000, msg_metadata = []\<rparr>])\<close>
proof -
  let ?r = \<open>AddChatMessage ''s1'' (Some ''user'') (Some ''hi'') None\<close>
  let ?req = \<open>as_user ''alice'' (Sessions ?r)\<close>
  let ?tried = \<open>try_block example_platform 10 (route ?req) example_failing_world\<close>
  have given: \<open>auth example_failing_world ?req = Some 10\<close>
    by (simp add: auth_def as_user_def example_failing_world_def example_world_def)
  have failing: \<open>faults example_failing_world = replicate 2 None @ Some ''redis is down'' # []\<close>
    by (simp add: example_failing_world_def example_world_def eval_nat_numeral)
  have \<open>ensures (post_chat_try example_platform 10 ''s1'' (Some ''user'') (Some ''hi'') None example_failing_world)
          (\<lambda>res w'. res = Inl (Error ''redis is down'') \<and>
             length (effects example_failing_world w') = 3 \<and>
             map_option chatHistory (map_of (db w') 1)
               = Some (Some [\<lparr>role = ''user'', content = ''hi'', timestamp = 5000, msg_metadata = []\<rparr>]))\<close>
    by (simp add: post_chat_try_def ensures_calls matching_def next_fault_def hydrate_def Let_def
        example_failing_world_def example_world_def example_platform_def example_session_def
        valid_session_def valid_title_def valid_description_def valid_chat_message_def
        valid_ui_state_def default_ui_state_def)
  from ensuresD [OF this] have tried:
    \<open>fst ?tried = Inl (Error ''redis is down'')\<close>
    \<open>length (effects example_failing_world (snd ?tried)) = 3\<close>
    \<open>map_option chatHistory (map_of (db (snd ?tried)) 1)
       = Some (Some [\<lparr>role = ''user'', content = ''hi'', timestamp = 5000, msg_metadata = []\<rparr>])\<close>
    by (simp_all add: as_user_def)
  then have \<open>?tried = (Inl (Error ''redis is down''), snd ?tried)\<close>
    by (simp add: prod_eq_iff)
  with thrown_errors_are_answered_with_500 [OF given, of example_platform, THEN conjunct1] have thrown:
    \<open>snd (serve example_platform ?req example_failing_world) = snd ?tried\<close>
    by blast
  with tried(2) have \<open>2 < length (effects example_failing_world (snd (serve example_platform ?req example_failing_world)))\<close>
    by simp
  with failing
    thrown_errors_are_answered_with_500 [OF given, of example_platform, THEN conjunct2, THEN conjunct2,
      rule_format, of 2 \<open>''redis is down''\<close> \<open>[]\<close>]
  have \<open>status (fst (serve example_platform ?req example_failing_world)) = 500 \<and>
        length (effects example_failing_world (snd (serve example_platform ?req example_failing_world))) = Suc 2\<close>
    by simp
  with given failing tried thrown show ?thesis
    by simp
qed

section \<open>The generation of a component\<close>

lemma first_to_last_brace_starts:
  \<open>first_to_last_brace s = Some m \<Longrightarrow> \<exists>m'. m = CHR ''{'' # m'\<close>
  by (auto simp: first_to_last_brace_def split: list.splits)

lemma parse_block_spec:
  \<open>parse_block pf s no_match parse_error =
     (case first_to_last_brace s of
        None \<Rightarrow> no_match
      | Some m \<Rightarrow> (case JSON_parse pf m of None \<Rightarrow> parse_error | Some parsed \<Rightarrow> parsed))\<close>
  by (simp add: parse_block_def match_json_rx split: option.split)

lemma parse_block_truthy:
  assumes \<open>parses_objects pf\<close>
  shows \<open>truthy (parse_block pf s (JObj a) (JObj b))\<close>
proof (cases \<open>first_to_last_brace s\<close>)
  case None
  then show ?thesis
    by (simp add: parse_block_spec)
next
  case (Some m)
  then obtain m' where \<open>m = CHR ''{'' # m'\<close>
    using first_to_last_brace_starts by blast
  with assms have \<open>JSON_parse pf m = Some v \<Longrightarrow> \<exists>fields. v = JObj fields\<close> for v
    by (simp add: parses_objects_def)
  with Some show ?thesis
    by (auto simp: parse_block_spec split: option.split)
qed

text \<open>A generation when the cache has no value for the prompt and no call fails.\<close>

lemma generate_try_miss:
  assumes \<open>p \<noteq> []\<close> and \<open>redisClient w\<close> and \<open>no_faults 3 w\<close>
    and \<open>\<not> truthy (case live_value w (cacheKey p) of None \<Rightarrow> JNull | Some v \<Rightarrow> v)\<close>
    and \<open>gemini w (generateComponentPrompt p existingCode h) = Text t\<close>
  shows \<open>ensures (post_generate_try pf user (Some p) sessionId existingCode h w)
     (\<lambda>res w'. res = Inr \<lparr>status = 200,
                          body = BAi (parse_block pf t (generate_fallback t) (generate_fallback t)) (Some False)\<rparr> \<and>
        redis w' = (redis w)(cacheKey p \<mapsto>
                      (clock w + 3600 * 1000, parse_block pf t (generate_fallback t) (generate_fallback t))))\<close>
proof -
  let ?get = \<open>RedisGet (cacheKey p)\<close>
  let ?fetch = \<open>Fetch (generateComponentPrompt p existingCode h)\<close>
  from assms(3) have first: \<open>next_fault w = None\<close> and \<open>no_faults 2 (performed ?get w)\<close>
    using no_faults_next [of 3 w] by simp_all
  then have second: \<open>next_fault (performed ?get w) = None\<close>
    and \<open>no_faults 1 (performed ?fetch (performed ?get w))\<close>
    using no_faults_next [of 2 \<open>performed ?get w\<close>] by simp_all
  then have third: \<open>next_fault (performed ?fetch (performed ?get w)) = None\<close>
    using no_faults_next(1) [of 1] by simp
  from assms(1,2,4,5) first second third show ?thesis
    by (simp add: post_generate_try_def ensures_calls Let_def)
qed

text \<open>A generation when the cache has a value for the prompt.\<close>

lemma generate_try_hit:
  assumes \<open>p \<noteq> []\<close> and \<open>redisClient w\<close> and \<open>next_fault w = None\<close>
    and \<open>live_value w (cacheKey p) = Some v\<close> and \<open>truthy v\<close>
  shows \<open>ensures (post_generate_try pf user (Some p) sessionId existingCode h w)
     (\<lambda>res w'. res = Inr \<lparr>status = 200, body = BAi v (Some True)\<rparr> \<and>
        effects w w' = [RedisGet (cacheKey p)])\<close>
  using assms by (simp add: post_generate_try_def ensures_calls)

text \<open>What the first answer of a generation says about the cache.\<close>

lemma generate_try_fills_cache:
  \<open>ensures (post_generate_try pf user (Some p) sessionId existingCode h w)
     (\<lambda>res w'. \<forall>d. res = Inr \<lparr>status = 200, body = BAi d (Some False)\<rparr> \<longrightarrow>
        redis w' (cacheKey p) = Some (clock w + 3600 * 1000, d) \<and>
        (\<exists>t. d = parse_block pf t (generate_fallback t) (generate_fallback t)))\<close>
  by (auto simp: post_generate_try_def ensures_calls Let_def split: option.split sum.split)

lemma serve_generate:
  \<open>auth w req = Some user \<Longrightarrow> route req = Ai (Generate p sessionId existingCode h) \<Longrightarrow>
     serve pf req w =
       catch_500_details ''Failed to generate component''
         (post_generate_try pf user p sessionId existingCode h w)\<close>
  by (simp add: serve_def ai_router_def with_auth_def post_generate_def)

text \<open>
  A generation when the cache has no value for the prompt and the API answers with a text:
  the request is answered with what the parse block makes of the text, unless the write to
  the cache fails.
\<close>

lemma third_fault:
  assumes \<open>no_faults 2 w\<close>
  shows \<open>next_fault (performed e2 (performed e1 w)) = None \<longleftrightarrow> no_faults 3 w\<close>
proof (cases \<open>faults w\<close>)
  case Nil
  then show ?thesis
    by (simp add: no_faults_def next_fault_def)
next
  case first: (Cons a rest)
  show ?thesis
  proof (cases rest)
    case Nil
    with first assms show ?thesis
      by (simp add: no_faults_def next_fault_def)
  next
    case second: (Cons b rest')
    with first assms show ?thesis
      by (cases rest') (simp_all add: no_faults_def next_fault_def eval_nat_numeral)
  qed
qed

lemma generate_try_text:
  assumes \<open>p \<noteq> []\<close> and \<open>redisClient w\<close> and \<open>no_faults 2 w\<close>
    and \<open>\<not> truthy (case live_value w (cacheKey p) of None \<Rightarrow> JNull | Some v \<Rightarrow> v)\<close>
    and \<open>gemini w (generateComponentPrompt p existingCode h) = Text t\<close>
  shows \<open>ensures (post_generate_try pf user (Some p) sessionId existingCode h w)
     (\<lambda>res w'.
        (no_faults 3 w \<longrightarrow>
           res = Inr \<lparr>status = 200,
                      body = BAi (parse_block pf t (generate_fallback t) (generate_fallback t)) (Some False)\<rparr>) \<and>
        (\<not> no_faults 3 w \<longrightarrow> (\<exists>e. res = Inl e)))\<close>
proof -
  let ?get = \<open>RedisGet (cacheKey p)\<close>
  let ?fetch = \<open>Fetch (generateComponentPrompt p existingCode h)\<close>
  from assms(3) have first: \<open>next_fault w = None\<close> and \<open>no_faults 1 (performed ?get w)\<close>
    using no_faults_next [of 2 w] by simp_all
  then have second: \<open>next_fault (performed ?get w) = None\<close>
    using no_faults_next(1) [of 1] by simp
  note third = third_fault [OF assms(3), of ?fetch ?get]
  from assms(1,2,4,5) first second third show ?thesis
    by (auto simp: post_generate_try_def ensures_calls Let_def split: option.split)
qed

text \<open>
  C2: when \<^verbatim>\<open>POST /ai/generate\<close> gets a text from the API (the cache has no value for the
  prompt, and the read of the cache and the call of the API do not fail), the match of the
  regular expression is the text from the first opening brace through the last closing
  brace, and the data of the response is what \<^verbatim>\<open>JSON.parse\<close> makes of the match; without
  a match, or when the parser throws, it is the fallback object with the whole text as
  \<^verbatim>\<open>jsx\<close>. The response has no data only when the write of the data to the cache fails,
  which is answered with status 500.
\<close>

theorem generate_returns_extracted_json:
  assumes \<open>auth w req = Some user\<close> and \<open>route req = Ai (Generate (Some p) sessionId existingCode h)\<close>
    and \<open>p \<noteq> []\<close> and \<open>redisClient w\<close> and \<open>no_faults 2 w\<close>
    and \<open>\<not> truthy (case live_value w (cacheKey p) of None \<Rightarrow> JNull | Some v \<Rightarrow> v)\<close>
    and \<open>gemini w (generateComponentPrompt p existingCode h) = Text t\<close>
  shows \<open>rx_match json_rx t = first_to_last_brace t \<and>
         (no_faults 3 w \<longrightarrow>
            fst (serve pf req w) =
              \<lparr>status = 200,
               body = BAi (case first_to_last_brace t of
                             None \<Rightarrow> JObj [(''jsx'', JStr t), (''css'', JStr ''''), (''tsx'', JStr ''''),
                                           (''explanation'', JStr ''Generated component based on your request'')]
                           | Some m \<Rightarrow>
                               (case JSON_parse pf m of
                                  None \<Rightarrow> JObj [(''jsx'', JStr t), (''css'', JStr ''''), (''tsx'', JStr ''''),
                                                (''explanation'', JStr ''Generated component based on your request'')]
                                | Some parsed \<Rightarrow> parsed))
                          (Some False)\<rparr>) \<and>
         (\<not> no_faults 3 w \<longrightarrow> status (fst (serve pf req w)) = 500)\<close>
  using ensuresD [OF generate_try_text [OF assms(3-7), of pf user sessionId]]
    serve_generate [OF assms(1,2), of pf]
  by (auto simp: match_json_rx parse_block_spec generate_fallback_def)

theorem generate_returns_extracted_json_witness:
  \<open>auth example_json_world (as_user ''alice'' (Ai (Generate (Some ''a card'') None None None))) = Some 10 \<and>
    redisClient example_json_world \<and> no_faults 3 example_json_world \<and>
    live_value example_json_world (cacheKey ''a card'') = None \<and>
    gemini example_json_world (generateComponentPrompt ''a card'' None None) = Text ''Here it is: {} (done)'' \<and>
    first_to_last_brace ''Here it is: {} (done)'' = Some ''{}'' \<and>
    fst (serve example_platform (as_user ''alice'' (Ai (Generate (Some ''a card'') None None None))) example_json_world)
      = \<lparr>status = 200, body = BAi (JObj []) (Some False)\<rparr>\<close>
proof -
  let ?req = \<open>as_user ''alice'' (Ai (Generate (Some ''a card'') None None None))\<close>
  have given:
    \<open>auth example_json_world ?req = Some 10\<close>
    \<open>route ?req = Ai (Generate (Some ''a card'') None None None)\<close>
    \<open>''a card'' \<noteq> []\<close>
    \<open>redisClient example_json_world\<close>
    \<open>no_faults 2 example_json_world\<close>
    \<open>\<not> truthy (case live_value example_json_world (cacheKey ''a card'') of None \<Rightarrow> JNull | Some v \<Rightarrow> v)\<close>
    \<open>gemini example_json_world (generateComponentPrompt ''a card'' None None) = Text ''Here it is: {} (done)''\<close>
    by (simp_all add: auth_def as_user_def example_json_world_def example_world_def no_faults_def
        live_value_def)
  have more:
    \<open>no_faults 3 example_json_world\<close>
    \<open>live_value example_json_world (cacheKey ''a card'') = None\<close>
    \<open>first_to_last_brace ''Here it is: {} (done)'' = Some ''{}''\<close>
    \<open>JSON_parse example_platform ''{}'' = Some (JObj [])\<close>
    by (simp_all add: example_json_world_def example_world_def live_value_def first_to_last_brace_def
        example_platform_def no_faults_def)
  from generate_returns_extracted_json [OF given, of example_platform] given more show ?thesis
    by simp
qed

text \<open>
  The claim C3 as stated fails: \<^verbatim>\<open>JSON.parse\<close> throws inside the \<^verbatim>\<open>try\<close> block of
  \<^verbatim>\<open>POST /ai/generate\<close>, on a text in braces that is not JSON, and the request is answered
  with status 200 and the fallback object.
\<close>

theorem parse_error_is_answered_with_200:
  \<open>rx_match json_rx ''{not json}'' = Some ''{not json}'' \<and>
    JSON_parse example_platform ''{not json}'' = None \<and>
    fst (serve example_platform (as_user ''alice'' (Ai (Generate (Some ''a card'') None None None))) example_world)
      = \<lparr>status = 200, body = BAi (generate_fallback ''{not json}'') (Some False)\<rparr>\<close>
proof -
  let ?req = \<open>as_user ''alice'' (Ai (Generate (Some ''a card'') None None None))\<close>
  have given:
    \<open>''a card'' \<noteq> []\<close>
    \<open>redisClient example_world\<close>
    \<open>no_faults 3 example_world\<close>
    \<open>\<not> truthy (case live_value example_world (cacheKey ''a card'') of None \<Rightarrow> JNull | Some v \<Rightarrow> v)\<close>
    \<open>gemini example_world (generateComponentPrompt ''a card'' None None) = Text ''{not json}''\<close>
    by (simp_all add: example_world_def no_faults_def live_value_def)
  have served:
    \<open>auth example_world ?req = Some 10\<close>
    \<open>route ?req = Ai (Generate (Some ''a card'') None None None)\<close>
    by (simp_all add: auth_def as_user_def example_world_def)
  have parse:
    \<open>first_to_last_brace ''{not json}'' = Some ''{not json}''\<close>
    \<open>JSON_parse example_platform ''{not json}'' = None\<close>
    by (simp_all add: first_to_last_brace_def example_platform_def)
  from ensuresD [OF generate_try_miss [OF given, of example_platform 10 None]]
    serve_generate [OF served, of example_platform] parse
  show ?thesis
    by (simp add: match_json_rx parse_block_spec)
qed

text \<open>
  C10: the key of the cache is \<^verbatim>\<open>ai_generate:\<close> and the base64 of the prompt, and of
  nothing else in the request. So after a request for a prompt was answered with a generated
  component, a request for the same prompt by any user, with any other fields, that comes
  while the key is in the cache as the first request wrote it and less than 3600 seconds
  after it, is answered with the data of the first answer and \<^verbatim>\<open>cached: true\<close>, after
  one read of that key and no call of the API.
\<close>

theorem generate_cache_depends_on_prompt_only:
  assumes \<open>auth w req = Some user\<close> and \<open>route req = Ai (Generate (Some p) sessionId existingCode h)\<close>
    and \<open>fst (serve pf req w) = \<lparr>status = 200, body = BAi d (Some False)\<rparr>\<close>
    and \<open>parses_objects pf\<close>
    and \<open>auth w2 req2 = Some user2\<close> and \<open>route req2 = Ai (Generate (Some p) sessionId2 existingCode2 h2)\<close>
    and \<open>redis w2 (cacheKey p) = redis (snd (serve pf req w)) (cacheKey p)\<close>
    and \<open>clock w2 < clock w + 3600 * 1000\<close>
    and \<open>redisClient w2\<close> and \<open>next_fault w2 = None\<close>
  shows \<open>cacheKey p = ''ai_generate:'' @ base64 p \<and>
         fst (serve pf req2 w2) = \<lparr>status = 200, body = BAi d (Some True)\<rparr> \<and>
         effects w2 (snd (serve pf req2 w2)) = [RedisGet (cacheKey p)]\<close>
proof -
  note first = serve_generate [OF assms(1,2), of pf]
  have \<open>p \<noteq> []\<close>
  proof
    assume \<open>p = []\<close>
    with first assms(3) show False
      by (simp add: post_generate_try_def respond_def)
  qed
  from first assms(3) have \<open>fst (post_generate_try pf user (Some p) sessionId existingCode h w)
      = Inr \<lparr>status = 200, body = BAi d (Some False)\<rparr>\<close>
    by (cases \<open>fst (post_generate_try pf user (Some p) sessionId existingCode h w)\<close>) simp_all
  with ensuresD [OF generate_try_fills_cache [of pf user p sessionId existingCode h w]] first
  obtain t where
    written: \<open>redis (snd (serve pf req w)) (cacheKey p) = Some (clock w + 3600 * 1000, d)\<close>
    and \<open>d = parse_block pf t (generate_fallback t) (generate_fallback t)\<close>
    by auto
  with assms(4) have \<open>truthy d\<close>
    by (simp add: parse_block_truthy generate_fallback_def)
  moreover from written assms(7,8) have \<open>live_value w2 (cacheKey p) = Some d\<close>
    by (simp add: live_value_def)
  ultimately show ?thesis
    using ensuresD [OF generate_try_hit [OF \<open>p \<noteq> []\<close> assms(9,10), of d pf user2 sessionId2 existingCode2 h2]]
      serve_generate [OF assms(5,6), of pf]
    by (simp add: cacheKey_def)
qed

theorem generate_cache_depends_on_prompt_only_witness:
  \<open>auth example_world (as_user ''alice'' (Ai (Generate (Some ''a card'') None None None))) = Some 10 \<and>
    fst (serve example_platform (as_user ''alice'' (Ai (Generate (Some ''a card'') None None None))) example_world)
      = \<lparr>status = 200, body = BAi (generate_fallback ''{not json}'') (Some False)\<rparr> \<and>
    parses_objects example_platform \<and>
    auth (snd (serve example_platform (as_user ''alice'' (Ai (Generate (Some ''a card'') None None None))) example_world))
      (as_user ''bob'' (Ai (Generate (Some ''a card'') (Some ''s2'') (Some (CodeString ''<p/>''))
         (Some [\<lparr>h_role = ''user'', h_content = ''a table''\<rparr>])))) = Some 20 \<and>
    fst (serve example_platform
          (as_user ''bob'' (Ai (Generate (Some ''a card'') (Some ''s2'') (Some (CodeString ''<p/>''))
             (Some [\<lparr>h_role = ''user'', h_content = ''a table''\<rparr>]))))
          (snd (serve example_platform (as_user ''alice'' (Ai (Generate (Some ''a card'') None None None))) example_world)))
      = \<lparr>status = 200, body = BAi (generate_fallback ''{not json}'') (Some True)\<rparr>\<close>
proof -
  let ?req = \<open>as_user ''alice'' (Ai (Generate (Some ''a card'') None None None))\<close>
  let ?req2 = \<open>as_user ''bob'' (Ai (Generate (Some ''a card'') (Some ''s2'') (Some (CodeString ''<p/>''))
                  (Some [\<lparr>h_role = ''user'', h_content = ''a table''\<rparr>])))\<close>
  let ?w2 = \<open>snd (serve example_platform ?req example_world)\<close>
  have miss:
    \<open>''a card'' \<noteq> []\<close>
    \<open>redisClient example_world\<close>
    \<open>no_faults 3 example_world\<close>
    \<open>\<not> truthy (case live_value example_world (cacheKey ''a card'') of None \<Rightarrow> JNull | Some v \<Rightarrow> v)\<close>
    \<open>gemini example_world (generateComponentPrompt ''a card'' None None) = Text ''{not json}''\<close>
    by (simp_all add: example_world_def no_faults_def live_value_def)
  have served:
    \<open>auth example_world ?req = Some 10\<close>
    \<open>route ?req = Ai (Generate (Some ''a card'') None None None)\<close>
    by (simp_all add: auth_def as_user_def example_world_def)
  have parse:
    \<open>first_to_last_brace ''{not json}'' = Some ''{not json}''\<close>
    \<open>JSON_parse example_platform ''{not json}'' = None\<close>
    by (simp_all add: first_to_last_brace_def example_platform_def)
  from ensuresD [OF generate_try_miss [OF miss, of example_platform 10 None]]
    serve_generate [OF served, of example_platform] parse
  have first: \<open>fst (serve example_platform ?req example_world)
      = \<lparr>status = 200, body = BAi (generate_fallback ''{not json}'') (Some False)\<rparr>\<close>
    by (simp add: match_json_rx parse_block_spec)
  have parser: \<open>parses_objects example_platform\<close>
    by (simp add: parses_objects_def example_platform_def)
  have \<open>auth example_world ?req2 = Some 20\<close>
    by (simp add: auth_def as_user_def example_world_def)
  then have second: \<open>auth ?w2 ?req2 = Some 20\<close>
    by simp
  have \<open>faults example_world = []\<close> \<open>clock example_world = 5000\<close>
    by (simp_all add: example_world_def)
  with serve_frame [of example_platform ?req example_world] miss(2)
  have later:
    \<open>clock ?w2 < clock example_world + 3600 * 1000\<close> \<open>redisClient ?w2\<close> \<open>next_fault ?w2 = None\<close>
    by (simp_all add: next_fault_def)
  have \<open>route ?req2 = Ai (Generate (Some ''a card'') (Some ''s2'') (Some (CodeString ''<p/>''))
                  (Some [\<lparr>h_role = ''user'', h_content = ''a table''\<rparr>]))\<close>
    by (simp add: as_user_def)
  from generate_cache_depends_on_prompt_only
    [OF served first parser second this refl later, THEN conjunct2, THEN conjunct1]
    served(1) first parser second
  show ?thesis
    by simp
qed

section \<open>The preview\<close>













end
